theory Spec2Isabelle
  imports Main
begin

section \<open>Python strings and the built-ins the service calls\<close>

text \<open>
  A Python \<open>str\<close> is a sequence of Unicode code points; slicing, \<open>len\<close>, \<open>strip\<close>,
  \<open>split\<close> and \<open>lower\<close> all count code points.  A string is therefore a list of code
  points (natural numbers), and \<open>u\<close> reads an ASCII literal as such a list.  Code points
  outside ASCII are written as hexadecimal numerals.
\<close>

type_synonym ustr = "nat list"

definition u :: "string \<Rightarrow> ustr" where
  "u s = map of_char s"

text \<open>
  \<open>str.isspace\<close> for a single code point: the 29 code points that CPython 3 treats as
  white space (\<open>strip()\<close> and \<open>split()\<close> without arguments use the same test).
\<close>

definition isspace :: "nat \<Rightarrow> bool" where
  "isspace c \<longleftrightarrow>
     (9 \<le> c \<and> c \<le> 13) \<or> (28 \<le> c \<and> c \<le> 32) \<or> c = 0x85 \<or> c = 0xA0 \<or> c = 0x1680 \<or>
     (0x2000 \<le> c \<and> c \<le> 0x200A) \<or> c = 0x2028 \<or> c = 0x2029 \<or> c = 0x202F \<or>
     c = 0x205F \<or> c = 0x3000"

definition py_strip :: "ustr \<Rightarrow> ustr" where
  "py_strip s = rev (dropWhile isspace (rev (dropWhile isspace s)))"

text \<open>
  \<open>s.split()\<close>: the maximal runs of non-space code points, in order; \<open>w\<close> is the
  word being read.
\<close>

fun split_from :: "ustr \<Rightarrow> ustr \<Rightarrow> ustr list" where
  "split_from w [] = (if w = [] then [] else [w])"
| "split_from w (c # cs) =
     (if isspace c then (if w = [] then split_from [] cs else w # split_from [] cs)
      else split_from (w @ [c]) cs)"

definition py_split :: "ustr \<Rightarrow> ustr list" where
  "py_split s = split_from [] s"

fun py_join :: "ustr \<Rightarrow> ustr list \<Rightarrow> ustr" where
  "py_join sep [] = []"
| "py_join sep [w] = w"
| "py_join sep (w # ws) = w @ sep @ py_join sep ws"

text \<open>A word, as \<open>split\<close> returns them: not empty and free of white space.\<close>

definition is_word :: "ustr \<Rightarrow> bool" where
  "is_word w \<longleftrightarrow> w \<noteq> [] \<and> (\<forall>c\<in>set w. \<not> isspace c)"

text \<open>
  \<open>s.lower()\<close> maps \<open>A\<close>..\<open>Z\<close> to \<open>a\<close>..\<open>z\<close> and leaves every other ASCII code point
  alone.  Outside ASCII it follows the Unicode case tables of the interpreter (one code
  point may become several, and capital sigma depends on its neighbours); those tables
  are the parameter \<open>L\<close>, which gives the lowering of the code point at index \<open>i\<close> of
  \<open>s\<close>.  Everything proved below holds for every \<open>L\<close>.
\<close>

type_synonym unicode_lower = "ustr \<Rightarrow> nat \<Rightarrow> ustr"

definition lower_at :: "unicode_lower \<Rightarrow> ustr \<Rightarrow> nat \<Rightarrow> ustr" where
  "lower_at L s i =
     (let c = s ! i in
      if 0x41 \<le> c \<and> c \<le> 0x5A then [c + 32] else if c < 0x80 then [c] else L s i)"

definition py_lower :: "unicode_lower \<Rightarrow> ustr \<Rightarrow> ustr" where
  "py_lower L s = concat (map (lower_at L s) [0..<length s])"

text \<open>The exceptions that can arise inside the handlers.\<close>

datatype exn = KeyError | UnicodeEncodeError | UnicodeDecodeError | StoreError ustr

section \<open>The helpers of \<open>main.py\<close>\<close>

definition tone_wrap :: "ustr \<Rightarrow> ustr \<Rightarrow> ustr" where
  "tone_wrap text mode =
     (if mode = u ''student'' then
        u ''Student Mode:\<newline>'' @
        u ''- Simple explanation\<newline>- Key points\<newline>- Short example\<newline>\<newline>'' @ text
      else if mode = u ''professional'' then
        u ''Professional Mode:\<newline>'' @
        u ''- Concise\<newline>- Actionable\<newline>- Business tone\<newline>\<newline>'' @ text
      else if mode = u ''fun'' then
        u ''Fun Mode '' @ [0x1F389] @ u '':\<newline>'' @ text @
        u ''\<newline>(peppered with a friendly, upbeat vibe)''
      else text)"

text \<open>
  The dictionary of the translation mock (the local \<open>translations\<close> of the source, renamed
  because that word is reserved here): key, then language, then text.
\<close>

definition translation_table :: "(ustr \<times> (ustr \<times> ustr) list) list" where
  "translation_table =
     [(u ''hello'',
        [(u ''ur'', [0x633, 0x644, 0x627, 0x645]),
         (u ''hi'', [0x928, 0x92E, 0x938, 0x94D, 0x924, 0x947])]),
      (u ''how are you'',
        [(u ''ur'', [0x622, 0x67E] @ u '' '' @ [0x6A9, 0x6CC, 0x633, 0x6D2] @ u '' '' @
                    [0x6C1, 0x6CC, 0x6BA]),
         (u ''hi'', [0x906, 0x92A] @ u '' '' @ [0x915, 0x948, 0x938, 0x947] @ u '' '' @
                    [0x939, 0x948, 0x902])])]"

definition generate_reply :: "unicode_lower \<Rightarrow> ustr \<Rightarrow> ustr \<Rightarrow> ustr \<Rightarrow> ustr" where
  "generate_reply L prompt mode language =
     (let base = py_strip prompt in
      if mode = u ''translation'' then
        (let key = py_lower L base in
         case map_of translation_table key of
           None \<Rightarrow> u ''Translation ('' @ language @ u ''): '' @ base
         | Some entry \<Rightarrow>
             (case map_of entry language of
                None \<Rightarrow> u ''Translation ('' @ language @ u ''): '' @ base
              | Some t \<Rightarrow> u ''Translation ('' @ language @ u ''): '' @ t))
      else if mode = u ''summary'' then
        (let words = py_split base;
             summary = (if length words > 40 then py_join (u '' '') (take 40 words) @ [0x2026]
                        else base)
         in u ''Summary: '' @ summary)
      else if mode = u ''writing'' then
        u ''Here is a polished draft based on your request:\<newline>\<newline>'' @
        u ''Title: '' @ take 60 base @ u ''\<newline>\<newline>'' @
        u ''Paragraph 1: A clear introduction that frames the goal and context.\<newline>\<newline>'' @
        u ''Paragraph 2: Key insights, structure, and supporting details with a smooth narrative.\<newline>\<newline>'' @
        u ''Paragraph 3: A succinct wrap'' @ [0x2011] @ u ''up with next steps and a strong closing.''
      else
        u ''Answer: '' @ base @ u ''\<newline>\<newline>'' @
        u ''Key points:\<newline>- Direct answer\<newline>- Extra context\<newline>- Practical tip'')"

definition bank :: "(ustr \<times> ustr list) list" where
  "bank =
     [(u ''qa'', [u ''Explain in simple terms'', u ''Give key takeaways'', u ''Add examples'']),
      (u ''writing'', [u ''Draft an outline'', u ''Expand to 1000 words'', u ''Refine tone'']),
      (u ''translation'', [u ''Detect language'', u ''Back-translate'', u ''Transliterate'']),
      (u ''summary'', [u ''Bullet summary'', u ''TL;DR'', u ''Action items'']),
      (u ''student'',
        [u ''Create study notes'', u ''Make quiz questions'', u ''Explain like I'm 12'']),
      (u ''professional'',
        [u ''Make an executive summary'', u ''Draft an email'', u ''Create a plan'']),
      (u ''fun'', [u ''Tell a pun'', u ''Make it playful'', u ''Add emojis''])]"

text \<open>
  \<open>mode or "qa"\<close>: a missing (\<open>None\<close>) or empty mode counts as \<open>"qa"\<close>.  The default
  \<open>bank["qa"]\<close> is evaluated before \<open>get\<close> is called and would raise \<open>KeyError\<close> if the
  table had no such key.
\<close>

definition smart_suggestions :: "ustr option \<Rightarrow> exn + ustr list" where
  "smart_suggestions mode =
     (let key = (case mode of None \<Rightarrow> u ''qa'' | Some m \<Rightarrow> if m = [] then u ''qa'' else m) in
      case map_of bank (u ''qa'') of
        None \<Rightarrow> Inl KeyError
      | Some dflt \<Rightarrow>
          Inr (take 3 (case map_of bank key of None \<Rightarrow> dflt | Some v \<Rightarrow> v)))"

section \<open>Encodings: UTF-8 and base64\<close>

text \<open>
  Bytes are natural numbers below 256.  \<open>s.encode("utf-8")\<close> raises
  \<open>UnicodeEncodeError\<close> on a surrogate code point (a Python string may hold one); no
  Python string holds a code point above \<open>0x10FFFF\<close>, so the model refuses those too.
\<close>

definition utf8_encode_cp :: "nat \<Rightarrow> nat list option" where
  "utf8_encode_cp c =
     (if c < 0x80 then Some [c]
      else if c < 0x800 then Some [0xC0 + c div 64, 0x80 + c mod 64]
      else if 0xD800 \<le> c \<and> c \<le> 0xDFFF then None
      else if c < 0x10000 then
        Some [0xE0 + c div 4096, 0x80 + (c div 64) mod 64, 0x80 + c mod 64]
      else if c < 0x110000 then
        Some [0xF0 + c div 262144, 0x80 + (c div 4096) mod 64, 0x80 + (c div 64) mod 64,
              0x80 + c mod 64]
      else None)"

fun utf8_encode :: "ustr \<Rightarrow> nat list option" where
  "utf8_encode [] = Some []"
| "utf8_encode (c # cs) =
     (case utf8_encode_cp c of
        None \<Rightarrow> None
      | Some bs \<Rightarrow> (case utf8_encode cs of None \<Rightarrow> None | Some r \<Rightarrow> Some (bs @ r)))"

text \<open>
  A Unicode scalar value is a code point that is no surrogate.  A \<open>str\<close> read from
  well-formed text holds nothing else, and these are the strings that can be encoded.
\<close>

definition scalar_value :: "nat \<Rightarrow> bool" where
  "scalar_value c \<longleftrightarrow> c < 0xD800 \<or> (0xE000 \<le> c \<and> c < 0x110000)"

definition continuation :: "nat \<Rightarrow> bool" where
  "continuation b \<longleftrightarrow> 0x80 \<le> b \<and> b < 0xC0"

text \<open>
  \<open>bs.decode("utf-8")\<close>, strict: shortest form only, no surrogates, nothing above
  \<open>0x10FFFF\<close>; any other byte sequence raises \<open>UnicodeDecodeError\<close> (\<open>None\<close>).
\<close>

fun utf8_decode :: "nat list \<Rightarrow> ustr option" where
  "utf8_decode [] = Some []"
| "utf8_decode (b # bs) =
     (if b < 0x80 then map_option ((#) b) (utf8_decode bs)
      else if 0xC2 \<le> b \<and> b < 0xE0 then
        (case bs of
           b1 # r \<Rightarrow>
             if continuation b1
             then map_option ((#) ((b - 0xC0) * 64 + (b1 - 0x80))) (utf8_decode r)
             else None
         | _ \<Rightarrow> None)
      else if 0xE0 \<le> b \<and> b < 0xF0 then
        (case bs of
           b1 # b2 # r \<Rightarrow>
             (let c = (b - 0xE0) * 4096 + (b1 - 0x80) * 64 + (b2 - 0x80) in
              if continuation b1 \<and> continuation b2 \<and> 0x800 \<le> c \<and> \<not> (0xD800 \<le> c \<and> c \<le> 0xDFFF)
              then map_option ((#) c) (utf8_decode r)
              else None)
         | _ \<Rightarrow> None)
      else if 0xF0 \<le> b \<and> b < 0xF5 then
        (case bs of
           b1 # b2 # b3 # r \<Rightarrow>
             (let c = (b - 0xF0) * 262144 + (b1 - 0x80) * 4096 + (b2 - 0x80) * 64 + (b3 - 0x80) in
              if continuation b1 \<and> continuation b2 \<and> continuation b3 \<and>
                 0x10000 \<le> c \<and> c < 0x110000
              then map_option ((#) c) (utf8_decode r)
              else None)
         | _ \<Rightarrow> None)
      else None)"

text \<open>The base64 alphabet: \<open>A\<close>..\<open>Z\<close>, \<open>a\<close>..\<open>z\<close>, \<open>0\<close>..\<open>9\<close>, \<open>+\<close>, \<open>/\<close>; padding is \<open>=\<close>.\<close>

definition b64_char :: "nat \<Rightarrow> nat" where
  "b64_char i =
     (if i < 26 then 0x41 + i
      else if i < 52 then 0x61 + (i - 26)
      else if i < 62 then 0x30 + (i - 52)
      else if i = 62 then 0x2B
      else 0x2F)"

fun b64encode :: "nat list \<Rightarrow> nat list" where
  "b64encode [] = []"
| "b64encode [a] = [b64_char (a div 4), b64_char ((a mod 4) * 16), 0x3D, 0x3D]"
| "b64encode [a, b] =
     [b64_char (a div 4), b64_char ((a mod 4) * 16 + b div 16), b64_char ((b mod 16) * 4), 0x3D]"
| "b64encode (a # b # c # r) =
     [b64_char (a div 4), b64_char ((a mod 4) * 16 + b div 16),
      b64_char ((b mod 16) * 4 + c div 64), b64_char (c mod 64)] @ b64encode r"

definition b64_index :: "nat \<Rightarrow> nat option" where
  "b64_index c =
     (if 0x41 \<le> c \<and> c \<le> 0x5A then Some (c - 0x41)
      else if 0x61 \<le> c \<and> c \<le> 0x7A then Some (c - 0x61 + 26)
      else if 0x30 \<le> c \<and> c \<le> 0x39 then Some (c - 0x30 + 52)
      else if c = 0x2B then Some 62
      else if c = 0x2F then Some 63
      else None)"

text \<open>
  A base64 decoder, used only to say what a returned payload decodes to: groups of four
  characters, padding allowed in the last group only.
\<close>

fun b64decode :: "nat list \<Rightarrow> nat list option" where
  "b64decode [] = Some []"
| "b64decode (c0 # c1 # c2 # c3 # r) =
     (case (b64_index c0, b64_index c1) of
        (Some i0, Some i1) \<Rightarrow>
          if c2 = 0x3D \<and> c3 = 0x3D \<and> r = [] then Some [i0 * 4 + i1 div 16]
          else
            (case b64_index c2 of
               None \<Rightarrow> None
             | Some i2 \<Rightarrow>
                 if c3 = 0x3D \<and> r = [] then Some [i0 * 4 + i1 div 16, (i1 mod 16) * 16 + i2 div 4]
                 else
                   (case b64_index c3 of
                      None \<Rightarrow> None
                    | Some i3 \<Rightarrow>
                        map_option
                          ((@) [i0 * 4 + i1 div 16, (i1 mod 16) * 16 + i2 div 4, (i2 mod 4) * 64 + i3])
                          (b64decode r)))
      | _ \<Rightarrow> None)"
| "b64decode _ = None"

section \<open>The schemas\<close>

datatype Mode = Qa | Writing | Translation | Summary | Student | Professional | Fun

fun mode_str :: "Mode \<Rightarrow> ustr" where
  "mode_str Qa = u ''qa''"
| "mode_str Writing = u ''writing''"
| "mode_str Translation = u ''translation''"
| "mode_str Summary = u ''summary''"
| "mode_str Student = u ''student''"
| "mode_str Professional = u ''professional''"
| "mode_str Fun = u ''fun''"

datatype Language = En | Ur | Hi

fun language_str :: "Language \<Rightarrow> ustr" where
  "language_str En = u ''en''"
| "language_str Ur = u ''ur''"
| "language_str Hi = u ''hi''"

datatype Role = User | Assistant | System

text \<open>The request and response models of \<open>main.py\<close>.\<close>

record ChatRequest =
  req_message :: ustr
  req_session_id :: "ustr option"
  req_mode :: "Mode option"
  req_language :: "Language option"

record ChatResponse =
  resp_session_id :: ustr
  resp_reply :: ustr
  resp_suggestions :: "ustr list"
  resp_mode :: ustr
  resp_created_at :: ustr

record ImageRequest =
  img_prompt :: ustr
  img_style :: "ustr option"

record ImageResponse =
  resp_image :: ustr

text \<open>The stored documents of \<open>schemas.py\<close>.\<close>

record ChatSession =
  cs_title :: ustr
  cs_mode :: Mode

record ChatMessage =
  cm_session_id :: ustr
  cm_role :: Role
  cm_content :: ustr
  cm_mode :: "Mode option"
  cm_meta :: "(ustr \<times> ustr) list option"

record ImageRequestRecord =
  rec_prompt :: ustr
  rec_style :: "ustr option"

datatype document =
  SessionDoc ChatSession | MessageDoc ChatMessage | ImageDoc ImageRequestRecord

section \<open>The document store\<close>

text \<open>
  The state is the log of the inserts the handlers have asked for, oldest first: the
  collection and the document of each.  What the database answers to an insert (an id, or
  a failure) is not decided by this program: it is the parameter \<open>db\<close>, which sees the
  log so far, so that any sequence of answers is some \<open>db\<close>.
\<close>

type_synonym store = "(ustr \<times> document) list"

type_synonym database = "store \<Rightarrow> ustr \<Rightarrow> document \<Rightarrow> exn + ustr"

type_synonym 'a io = "store \<Rightarrow> (exn + 'a) \<times> store"

definition io_return :: "'a \<Rightarrow> 'a io" where
  "io_return x s = (Inr x, s)"

definition io_raise :: "exn \<Rightarrow> 'a io" where
  "io_raise e s = (Inl e, s)"

definition io_bind :: "'a io \<Rightarrow> ('a \<Rightarrow> 'b io) \<Rightarrow> 'b io" where
  "io_bind m f s = (case m s of (Inl e, s') \<Rightarrow> (Inl e, s') | (Inr x, s') \<Rightarrow> f x s')"

text \<open>
  Modelled from the spec: \<open>create_document\<close> of the module \<open>database\<close>, which is not among
  the sources.  The spec gives it as \<open>insert(collection, document) -> id\<close>, on a store
  that may be unreachable: the insert is asked of the database, which answers with the
  assigned id or raises.
\<close>

definition create_document :: "database \<Rightarrow> ustr \<Rightarrow> document \<Rightarrow> ustr io" where
  "create_document db collection d s = (db s collection d, s @ [(collection, d)])"

text \<open>
  What a handler reads from outside: the database, the two readings of the clock
  (\<open>utcnow().strftime('%H:%M')\<close> when a session is created, \<open>utcnow().isoformat()\<close> when
  the response is built) and the interpreter's Unicode case tables.
\<close>

record env =
  env_db :: database
  env_hm :: ustr
  env_iso :: ustr
  env_lower :: unicode_lower

section \<open>The routes\<close>

text \<open>
  The values \<open>chat\<close> computes on its way, under the names the source gives them:
  \<open>req.mode or "qa"\<close>, \<open>req.language or "en"\<close> (every mode and language of the
  enumerations is a non-empty string, so only \<open>None\<close> is replaced), the session
  document, the reply, and the two messages.
\<close>

definition mode_or_qa :: "ChatRequest \<Rightarrow> ustr" where
  "mode_or_qa req = (case req_mode req of None \<Rightarrow> u ''qa'' | Some m \<Rightarrow> mode_str m)"

definition language_or_en :: "ChatRequest \<Rightarrow> ustr" where
  "language_or_en req = (case req_language req of None \<Rightarrow> u ''en'' | Some l \<Rightarrow> language_str l)"

definition session :: "env \<Rightarrow> ChatRequest \<Rightarrow> ChatSession" where
  "session e req =
     \<lparr>cs_title = u ''Chat '' @ [0x2013] @ u '' '' @ env_hm e,
      cs_mode = (case req_mode req of None \<Rightarrow> Qa | Some m \<Rightarrow> m)\<rparr>"

definition user_msg :: "ChatRequest \<Rightarrow> ustr \<Rightarrow> ChatMessage" where
  "user_msg req session_id =
     \<lparr>cm_session_id = session_id, cm_role = User, cm_content = req_message req,
      cm_mode = req_mode req, cm_meta = None\<rparr>"

definition reply_text :: "env \<Rightarrow> ChatRequest \<Rightarrow> ustr" where
  "reply_text e req =
     (let core = generate_reply (env_lower e) (req_message req) (mode_or_qa req)
                   (language_or_en req)
      in tone_wrap core (mode_or_qa req))"

definition assistant_msg :: "env \<Rightarrow> ChatRequest \<Rightarrow> ustr \<Rightarrow> ChatMessage" where
  "assistant_msg e req session_id =
     \<lparr>cm_session_id = session_id, cm_role = Assistant, cm_content = reply_text e req,
      cm_mode = req_mode req, cm_meta = None\<rparr>"

definition chat :: "env \<Rightarrow> ChatRequest \<Rightarrow> ChatResponse io" where
  "chat e req =
     io_bind
       (case req_session_id req of
          None \<Rightarrow> create_document (env_db e) (u ''chatsession'') (SessionDoc (session e req))
        | Some sid \<Rightarrow>
            if sid = []
            then create_document (env_db e) (u ''chatsession'') (SessionDoc (session e req))
            else io_return sid)
       (\<lambda>session_id.
     io_bind
       (create_document (env_db e) (u ''chatmessage'') (MessageDoc (user_msg req session_id)))
       (\<lambda>_.
     io_bind
       (create_document (env_db e) (u ''chatmessage'')
          (MessageDoc (assistant_msg e req session_id)))
       (\<lambda>_.
     case smart_suggestions (Some (mode_or_qa req)) of
       Inl x \<Rightarrow> io_raise x
     | Inr suggestions \<Rightarrow>
         io_return
           \<lparr>resp_session_id = session_id, resp_reply = reply_text e req,
            resp_suggestions = suggestions, resp_mode = mode_or_qa req,
            resp_created_at = env_iso e\<rparr>)))"

text \<open>The template of the image route: the markup before and after the title.\<close>

definition svg_head :: ustr where
  \<open>svg_head =
     u ''<svg xmlns="http://www.w3.org/2000/svg" width="1024" height="1024" viewBox="0 0 1024 1024">\<newline>'' @
     u ''    <defs>\<newline>'' @
     u ''      <linearGradient id="g" x1="0" x2="1" y1="0" y2="1">\<newline>'' @
     u ''        <stop offset="0%" stop-color="#00A8FF"/>\<newline>'' @
     u ''        <stop offset="50%" stop-color="#00EFFF"/>\<newline>'' @
     u ''        <stop offset="100%" stop-color="#64FFFF"/>\<newline>'' @
     u ''      </linearGradient>\<newline>'' @
     u ''      <filter id="glow" x="-40%" y="-40%" width="180%" height="180%">\<newline>'' @
     u ''        <feGaussianBlur stdDeviation="12" result="coloredBlur"/>\<newline>'' @
     u ''        <feMerge>\<newline>'' @
     u ''          <feMergeNode in="coloredBlur"/>\<newline>'' @
     u ''          <feMergeNode in="SourceGraphic"/>\<newline>'' @
     u ''        </feMerge>\<newline>'' @
     u ''      </filter>\<newline>'' @
     u ''    </defs>\<newline>'' @
     u ''    <rect width="1024" height="1024" fill="#000814"/>\<newline>'' @
     u ''    <circle cx="512" cy="512" r="360" fill="url(#g)" opacity="0.15" filter="url(#glow)"/>\<newline>'' @
     u ''    <path d="M512 240 C600 260 700 340 720 460 C700 520 620 560 560 640 C520 700 520 760 512 784 C504 760 504 700 464 640 C404 560 324 520 304 460 C324 340 424 260 512 240 Z" fill="url(#g)" opacity="0.9" filter="url(#glow)"/>\<newline>'' @
     u ''    <text x="50%" y="82%" dominant-baseline="middle" text-anchor="middle" font-family="Inter, Arial" font-size="44" fill="#E6F7FF" opacity="0.95">''\<close>

definition svg_tail :: ustr where
  \<open>svg_tail =
     u ''</text>\<newline>'' @
     u ''    <text x="50%" y="90%" dominant-baseline="middle" text-anchor="middle" font-family="Inter, Arial" font-size="24" fill="#8AD8FF" opacity="0.85">Shahbaz AI '' @ [0xB7] @ u '' BlueFlame</text>\<newline>'' @
     u ''  </svg>''\<close>

text \<open>
  The title and the markup \<open>image\<close> computes, under the names the source gives them.
  An empty prompt is replaced by \<open>Shahbaz AI\<close>; the prompt is trimmed and cut to 80
  code points, and put between the two parts of the template as it is.
\<close>

definition title :: "ImageRequest \<Rightarrow> ustr" where
  "title req =
     (let prompt = py_strip (if img_prompt req = [] then u ''Shahbaz AI'' else img_prompt req)
      in take 80 prompt)"

definition svg :: "ImageRequest \<Rightarrow> ustr" where
  "svg req = svg_head @ title req @ svg_tail"

text \<open>
  \<open>base64.b64encode(svg.encode("utf-8")).decode("utf-8")\<close> comes first and may raise;
  the insert into \<open>imagerequest\<close> follows inside \<open>try\<close> ... \<open>except Exception: pass\<close>, so
  its outcome is dropped.
\<close>

definition image :: "env \<Rightarrow> ImageRequest \<Rightarrow> ImageResponse io" where
  "image e req =
     (case utf8_encode (svg req) of
        None \<Rightarrow> io_raise UnicodeEncodeError
      | Some bytes \<Rightarrow>
          (case utf8_decode (b64encode bytes) of
             None \<Rightarrow> io_raise UnicodeDecodeError
           | Some payload \<Rightarrow>
               (let data_uri = u ''data:image/svg+xml;base64,'' @ payload in
                (\<lambda>s.
                   case create_document (env_db e) (u ''imagerequest'')
                          (ImageDoc \<lparr>rec_prompt = img_prompt req, rec_style = img_style req\<rparr>) s
                   of (_, s') \<Rightarrow> io_return \<lparr>resp_image = data_uri\<rparr> s'))))"

text \<open>
  Reading a returned data URI back: the payload after the media-type prefix, decoded
  from base64 and then from UTF-8.
\<close>

definition decode_data_uri :: "ustr \<Rightarrow> ustr option" where
  "decode_data_uri uri =
     (let p = u ''data:image/svg+xml;base64,'' in
      if take (length p) uri = p
      then (case b64decode (drop (length p) uri) of None \<Rightarrow> None | Some bs \<Rightarrow> utf8_decode bs)
      else None)"

section \<open>Well-formed markup\<close>

text \<open>
  Well-formedness of a text as an XML 1.0 document (Fifth Edition; the numbers below are
  its productions), for documents with no XML declaration and no document type
  declaration: a text that starts with \<open><svg\<close> has neither.  The text is read from
  left to right, one character at a time, with the names of the open elements on a
  stack.
\<close>

text \<open>
  The character classes of XML 1.0: \<open>Char\<close> (production 2), \<open>S\<close> (3),
  \<open>NameStartChar\<close> (4) and \<open>NameChar\<close> (4a).
\<close>

definition xml_char :: "nat \<Rightarrow> bool" where
  "xml_char c \<longleftrightarrow>
     c = 0x9 \<or> c = 0xA \<or> c = 0xD \<or> (0x20 \<le> c \<and> c \<le> 0xD7FF) \<or>
     (0xE000 \<le> c \<and> c \<le> 0xFFFD) \<or> (0x10000 \<le> c \<and> c \<le> 0x10FFFF)"

definition xml_space :: "nat \<Rightarrow> bool" where
  "xml_space c \<longleftrightarrow> c = 0x20 \<or> c = 0x9 \<or> c = 0xD \<or> c = 0xA"

definition name_start_char :: "nat \<Rightarrow> bool" where
  "name_start_char c \<longleftrightarrow>
     c = 0x3A \<or> (0x41 \<le> c \<and> c \<le> 0x5A) \<or> c = 0x5F \<or> (0x61 \<le> c \<and> c \<le> 0x7A) \<or>
     (0xC0 \<le> c \<and> c \<le> 0xD6) \<or> (0xD8 \<le> c \<and> c \<le> 0xF6) \<or> (0xF8 \<le> c \<and> c \<le> 0x2FF) \<or>
     (0x370 \<le> c \<and> c \<le> 0x37D) \<or> (0x37F \<le> c \<and> c \<le> 0x1FFF) \<or>
     (0x200C \<le> c \<and> c \<le> 0x200D) \<or> (0x2070 \<le> c \<and> c \<le> 0x218F) \<or>
     (0x2C00 \<le> c \<and> c \<le> 0x2FEF) \<or> (0x3001 \<le> c \<and> c \<le> 0xD7FF) \<or>
     (0xF900 \<le> c \<and> c \<le> 0xFDCF) \<or> (0xFDF0 \<le> c \<and> c \<le> 0xFFFD) \<or>
     (0x10000 \<le> c \<and> c \<le> 0xEFFFF)"

definition name_char :: "nat \<Rightarrow> bool" where
  "name_char c \<longleftrightarrow>
     name_start_char c \<or> c = 0x2D \<or> c = 0x2E \<or> (0x30 \<le> c \<and> c \<le> 0x39) \<or> c = 0xB7 \<or>
     (0x300 \<le> c \<and> c \<le> 0x36F) \<or> (0x203F \<le> c \<and> c \<le> 0x2040)"

text \<open>
  Character references are decimal or hexadecimal (66); without a document type
  declaration the only entities are \<open>amp\<close>, \<open>lt\<close>, \<open>gt\<close>, \<open>apos\<close> and \<open>quot\<close>
  (section 4.6), and no processing instruction may be called \<open>xml\<close> in any case (17).
\<close>

definition dec_digit :: "nat \<Rightarrow> nat option" where
  "dec_digit c = (if 0x30 \<le> c \<and> c \<le> 0x39 then Some (c - 0x30) else None)"

definition hex_digit :: "nat \<Rightarrow> nat option" where
  "hex_digit c =
     (if 0x30 \<le> c \<and> c \<le> 0x39 then Some (c - 0x30)
      else if 0x41 \<le> c \<and> c \<le> 0x46 then Some (c - 0x37)
      else if 0x61 \<le> c \<and> c \<le> 0x66 then Some (c - 0x57)
      else None)"

definition predefined_entity :: "ustr \<Rightarrow> bool" where
  "predefined_entity n \<longleftrightarrow>
     n = u ''amp'' \<or> n = u ''lt'' \<or> n = u ''gt'' \<or> n = u ''apos'' \<or> n = u ''quot''"

definition reserved_target :: "ustr \<Rightarrow> bool" where
  "reserved_target n \<longleftrightarrow>
     (case n of
        [a, b, c] \<Rightarrow> (a = 0x58 \<or> a = 0x78) \<and> (b = 0x4D \<or> b = 0x6D) \<and> (c = 0x4C \<or> c = 0x6C)
      | _ \<Rightarrow> False)"

text \<open>
  Where the reader is: in character data or between markup (\<open>Text\<close>, with the number
  of \<open>]\<close> just read, at most 2), after \<open><\<close>, in a start tag (its name, the names of
  the attributes read so far, the quote of the value being read), in an end tag, in a
  comment, a CDATA section or a processing instruction, or in a reference, which
  remembers where it returns to.
\<close>

datatype mode =
    Text nat
  | Lt
  | STagName ustr
  | STagGap ustr "ustr list" bool
  | AttName ustr "ustr list" ustr
  | AttEq ustr "ustr list"
  | AttQuote ustr "ustr list"
  | AttValue ustr "ustr list" nat
  | Slash ustr
  | ETagStart
  | ETagName ustr
  | ETagGap ustr
  | Bang
  | Bang1
  | Comment nat
  | CDStart ustr
  | CData nat
  | PIStart
  | PITarget ustr
  | PIBody bool
  | PIEnd
  | Amp mode
  | RefName mode ustr
  | RefHash mode
  | RefDec mode nat
  | RefX mode
  | RefHex mode nat

text \<open>
  The reader's state: the names of the open elements, innermost first; whether the root
  element has been closed; and the mode.
\<close>

type_synonym parser = "ustr list \<times> bool \<times> mode"

definition open_element :: "ustr \<Rightarrow> ustr list \<Rightarrow> bool \<Rightarrow> parser option" where
  "open_element n stack closed = Some (n # stack, closed, Text 0)"

definition empty_element :: "ustr list \<Rightarrow> bool \<Rightarrow> parser option" where
  "empty_element stack closed = Some (stack, closed \<or> stack = [], Text 0)"

definition close_element :: "ustr \<Rightarrow> ustr list \<Rightarrow> bool \<Rightarrow> parser option" where
  "close_element n stack closed =
     (case stack of
        [] \<Rightarrow> None
      | m # rest \<Rightarrow> if m = n then Some (rest, closed \<or> rest = [], Text 0) else None)"

text \<open>
  One character.  Start tags are \<open><Name (S Attribute)* S? >\<close> (40) or end in \<open>/>\<close> (44),
  attributes \<open>Name S? = S? "..."\<close> (41, 25, 10) with no name twice in a tag and no
  \<open><\<close> in a value; end tags \<open></Name S? >\<close> (42) must name the innermost open
  element; comments (15), CDATA sections (18-21) and processing instructions (16) end
  at their closing marks; in character data (14) \<open><\<close> and \<open>&\<close> start markup and
  \<open>]]>\<close> is refused; outside the root element only white space, comments and
  processing instructions may stand, and no second root (1, 27).
\<close>

fun step_mode :: "ustr list \<Rightarrow> bool \<Rightarrow> mode \<Rightarrow> nat \<Rightarrow> parser option" where
  "step_mode stack closed (Text k) c =
     (if c = 0x3C then Some (stack, closed, Lt)
      else if stack = [] then (if xml_space c then Some (stack, closed, Text 0) else None)
      else if c = 0x26 then Some (stack, closed, Amp (Text 0))
      else if c = 0x5D then Some (stack, closed, Text (min 2 (k + 1)))
      else if c = 0x3E \<and> 2 \<le> k then None
      else Some (stack, closed, Text 0))"
| "step_mode stack closed Lt c =
     (if c = 0x2F then (if stack = [] then None else Some (stack, closed, ETagStart))
      else if c = 0x21 then Some (stack, closed, Bang)
      else if c = 0x3F then Some (stack, closed, PIStart)
      else if name_start_char c \<and> \<not> (stack = [] \<and> closed) then Some (stack, closed, STagName [c])
      else None)"
| "step_mode stack closed (STagName n) c =
     (if name_char c then Some (stack, closed, STagName (n @ [c]))
      else if xml_space c then Some (stack, closed, STagGap n [] True)
      else if c = 0x3E then open_element n stack closed
      else if c = 0x2F then Some (stack, closed, Slash n)
      else None)"
| "step_mode stack closed (STagGap n as sp) c =
     (if xml_space c then Some (stack, closed, STagGap n as True)
      else if c = 0x3E then open_element n stack closed
      else if c = 0x2F then Some (stack, closed, Slash n)
      else if name_start_char c \<and> sp then Some (stack, closed, AttName n as [c])
      else None)"
| "step_mode stack closed (AttName n as a) c =
     (if name_char c then Some (stack, closed, AttName n as (a @ [c]))
      else if a \<in> set as then None
      else if xml_space c then Some (stack, closed, AttEq n (a # as))
      else if c = 0x3D then Some (stack, closed, AttQuote n (a # as))
      else None)"
| "step_mode stack closed (AttEq n as) c =
     (if xml_space c then Some (stack, closed, AttEq n as)
      else if c = 0x3D then Some (stack, closed, AttQuote n as)
      else None)"
| "step_mode stack closed (AttQuote n as) c =
     (if xml_space c then Some (stack, closed, AttQuote n as)
      else if c = 0x22 \<or> c = 0x27 then Some (stack, closed, AttValue n as c)
      else None)"
| "step_mode stack closed (AttValue n as q) c =
     (if c = q then Some (stack, closed, STagGap n as False)
      else if c = 0x3C then None
      else if c = 0x26 then Some (stack, closed, Amp (AttValue n as q))
      else Some (stack, closed, AttValue n as q))"
| "step_mode stack closed (Slash n) c =
     (if c = 0x3E then empty_element stack closed else None)"
| "step_mode stack closed ETagStart c =
     (if name_start_char c then Some (stack, closed, ETagName [c]) else None)"
| "step_mode stack closed (ETagName n) c =
     (if name_char c then Some (stack, closed, ETagName (n @ [c]))
      else if xml_space c then Some (stack, closed, ETagGap n)
      else if c = 0x3E then close_element n stack closed
      else None)"
| "step_mode stack closed (ETagGap n) c =
     (if xml_space c then Some (stack, closed, ETagGap n)
      else if c = 0x3E then close_element n stack closed
      else None)"
| "step_mode stack closed Bang c =
     (if c = 0x2D then Some (stack, closed, Bang1)
      else if c = 0x5B \<and> stack \<noteq> [] then Some (stack, closed, CDStart (u ''CDATA[''))
      else None)"
| "step_mode stack closed Bang1 c =
     (if c = 0x2D then Some (stack, closed, Comment 0) else None)"
| "step_mode stack closed (Comment k) c =
     (if k = 2 then (if c = 0x3E then Some (stack, closed, Text 0) else None)
      else if c = 0x2D then Some (stack, closed, Comment (k + 1))
      else Some (stack, closed, Comment 0))"
| "step_mode stack closed (CDStart rest) c =
     (case rest of
        [] \<Rightarrow> None
      | r # rs \<Rightarrow>
          if c \<noteq> r then None
          else if rs = [] then Some (stack, closed, CData 0)
          else Some (stack, closed, CDStart rs))"
| "step_mode stack closed (CData k) c =
     (if c = 0x5D then Some (stack, closed, CData (min 2 (k + 1)))
      else if c = 0x3E \<and> 2 \<le> k then Some (stack, closed, Text 0)
      else Some (stack, closed, CData 0))"
| "step_mode stack closed PIStart c =
     (if name_start_char c then Some (stack, closed, PITarget [c]) else None)"
| "step_mode stack closed (PITarget n) c =
     (if name_char c then Some (stack, closed, PITarget (n @ [c]))
      else if reserved_target n then None
      else if xml_space c then Some (stack, closed, PIBody False)
      else if c = 0x3F then Some (stack, closed, PIEnd)
      else None)"
| "step_mode stack closed (PIBody q) c =
     (if c = 0x3F then Some (stack, closed, PIBody True)
      else if c = 0x3E \<and> q then Some (stack, closed, Text 0)
      else Some (stack, closed, PIBody False))"
| "step_mode stack closed PIEnd c =
     (if c = 0x3E then Some (stack, closed, Text 0) else None)"
| "step_mode stack closed (Amp back) c =
     (if c = 0x23 then Some (stack, closed, RefHash back)
      else if name_start_char c then Some (stack, closed, RefName back [c])
      else None)"
| "step_mode stack closed (RefName back n) c =
     (if name_char c then Some (stack, closed, RefName back (n @ [c]))
      else if c = 0x3B \<and> predefined_entity n then Some (stack, closed, back)
      else None)"
| "step_mode stack closed (RefHash back) c =
     (if c = 0x78 then Some (stack, closed, RefX back)
      else (case dec_digit c of
              None \<Rightarrow> None
            | Some d \<Rightarrow> Some (stack, closed, RefDec back d)))"
| "step_mode stack closed (RefDec back v) c =
     (if c = 0x3B then (if xml_char v then Some (stack, closed, back) else None)
      else (case dec_digit c of
              None \<Rightarrow> None
            | Some d \<Rightarrow> Some (stack, closed, RefDec back (10 * v + d))))"
| "step_mode stack closed (RefX back) c =
     (case hex_digit c of
        None \<Rightarrow> None
      | Some d \<Rightarrow> Some (stack, closed, RefHex back d))"
| "step_mode stack closed (RefHex back v) c =
     (if c = 0x3B then (if xml_char v then Some (stack, closed, back) else None)
      else (case hex_digit c of
              None \<Rightarrow> None
            | Some d \<Rightarrow> Some (stack, closed, RefHex back (16 * v + d))))"

text \<open>Every character of a document must be a \<open>Char\<close>.\<close>

definition step :: "parser \<Rightarrow> nat \<Rightarrow> parser option" where
  "step p c =
     (case p of (stack, closed, m) \<Rightarrow> if xml_char c then step_mode stack closed m c else None)"

fun run :: "parser \<Rightarrow> ustr \<Rightarrow> parser option" where
  "run p [] = Some p"
| "run p (c # cs) = (case step p c of None \<Rightarrow> None | Some p' \<Rightarrow> run p' cs)"

text \<open>
  A document is well-formed when the reader gets through it and ends outside all
  markup, with the root element closed.
\<close>

definition well_formed :: "ustr \<Rightarrow> bool" where
  "well_formed doc \<longleftrightarrow>
     (case run ([], False, Text 0) doc of
        Some ([], True, Text k) \<Rightarrow> True
      | _ \<Rightarrow> False)"

text \<open>
  Plain character data: legal characters other than \<open><\<close> and \<open>&\<close>, and nowhere the
  sequence \<open>]]>\<close>.
\<close>

fun cdata_end_in :: "ustr \<Rightarrow> bool" where
  "cdata_end_in [] = False"
| "cdata_end_in (c # cs) = (take 3 (c # cs) = u '']]>'' \<or> cdata_end_in cs)"

definition plain_text :: "ustr \<Rightarrow> bool" where
  "plain_text s \<longleftrightarrow> list_all (\<lambda>c. xml_char c \<and> c \<noteq> 0x3C \<and> c \<noteq> 0x26) s \<and> \<not> cdata_end_in s"

section \<open>Example inputs\<close>

text \<open>
  A world whose database accepts every insert and answers with the id \<open>s1\<close>, and a
  first request of a conversation: \<open>hello\<close>, to be translated to Urdu.
\<close>

definition demo_env :: env where
  "demo_env =
     \<lparr>env_db = (\<lambda>s c d. Inr (u ''s1'')), env_hm = u ''09:30'',
      env_iso = u ''2025-01-01T09:30:00'', env_lower = (\<lambda>s i. [s ! i])\<rparr>"

definition demo_request :: ChatRequest where
  "demo_request =
     \<lparr>req_message = u ''hello'', req_session_id = None, req_mode = Some Translation,
      req_language = Some Ur\<rparr>"

section \<open>Evaluating literals\<close>

lemma u_simps: "u [] = []" "u (c # cs) = of_char c # u cs"
  by (simp_all add: u_def)

section \<open>The tone wrapper\<close>

text \<open>
  C4, as the code has it.  For every text and every mode other than \<open>student\<close>,
  \<open>professional\<close> and \<open>fun\<close> the tone wrapper returns its input, so wrapping a generated
  reply in that mode changes nothing.  For \<open>student\<close> and \<open>professional\<close> it puts a fixed
  header and three fixed bullet lines before the unchanged text.  For \<open>fun\<close> it puts the
  fixed header line \<open>Fun Mode\<close> (with the party emoji) before the unchanged text and a
  fixed sign-off line after it.
\<close>

theorem tone_wrap_spec:
  "(mode \<notin> {u ''student'', u ''professional'', u ''fun''} \<longrightarrow>
      tone_wrap text mode = text \<and>
      tone_wrap (generate_reply L x mode lang) mode = generate_reply L x mode lang) \<and>
   tone_wrap text (u ''student'') =
      u ''Student Mode:\<newline>- Simple explanation\<newline>- Key points\<newline>- Short example\<newline>\<newline>'' @ text \<and>
   tone_wrap text (u ''professional'') =
      u ''Professional Mode:\<newline>- Concise\<newline>- Actionable\<newline>- Business tone\<newline>\<newline>'' @ text \<and>
   tone_wrap text (u ''fun'') =
      u ''Fun Mode '' @ [0x1F389] @ u '':\<newline>'' @ text @
      u ''\<newline>(peppered with a friendly, upbeat vibe)''"
  by (simp add: tone_wrap_def u_simps)

text \<open>The identity case at the mode \<open>translation\<close>.\<close>

theorem tone_wrap_spec_witness:
  "tone_wrap (u ''ok'') (u ''translation'') = u ''ok'' \<and>
   tone_wrap (generate_reply (\<lambda>s i. [s ! i]) (u ''hello'') (u ''translation'') (u ''ur''))
     (u ''translation'') =
   generate_reply (\<lambda>s i. [s ! i]) (u ''hello'') (u ''translation'') (u ''ur'')"
  using tone_wrap_spec [of "u ''translation''" "u ''ok''" "\<lambda>s i. [s ! i]" "u ''hello''" "u ''ur''"]
  by (simp add: u_simps)

text \<open>
  C4 as the spec words it says that in \<open>fun\<close> mode the wrapper appends a sign-off to the
  unchanged text.  No sign-off makes that true: the result starts with the header, not
  with the text.
\<close>

theorem tone_wrap_fun_counterexample:
  "\<not> (\<exists>signoff. \<forall>text. tone_wrap text (u ''fun'') = text @ signoff)"
proof
  assume "\<exists>signoff. \<forall>text. tone_wrap text (u ''fun'') = text @ signoff"
  then obtain signoff where h: "\<And>text. tone_wrap text (u ''fun'') = text @ signoff" by blast
  have "hd (tone_wrap (u ''a'') (u ''fun'')) = 0x46" by (simp add: tone_wrap_def u_simps)
  moreover have "hd (u ''a'' @ signoff) = 0x61" by (simp add: u_simps)
  ultimately show False using h [of "u ''a''"] by simp
qed

section \<open>The suggestion bank\<close>

text \<open>
  C6.  The suggestion bank never raises and returns at most three strings for every
  mode, present or missing; for each of the seven modes of the enumeration it returns
  the three strings of that mode's entry, in the order of the table; for a missing mode
  and for every mode that is none of the seven it returns the \<open>qa\<close> entry, in particular
  for the mode \<open>unknown\<close>.
\<close>

theorem smart_suggestions_spec:
  "(\<exists>xs. smart_suggestions mode = Inr xs \<and> length xs \<le> 3) \<and>
   smart_suggestions (Some (u ''qa'')) =
     Inr [u ''Explain in simple terms'', u ''Give key takeaways'', u ''Add examples''] \<and>
   smart_suggestions (Some (u ''writing'')) =
     Inr [u ''Draft an outline'', u ''Expand to 1000 words'', u ''Refine tone''] \<and>
   smart_suggestions (Some (u ''translation'')) =
     Inr [u ''Detect language'', u ''Back-translate'', u ''Transliterate''] \<and>
   smart_suggestions (Some (u ''summary'')) =
     Inr [u ''Bullet summary'', u ''TL;DR'', u ''Action items''] \<and>
   smart_suggestions (Some (u ''student'')) =
     Inr [u ''Create study notes'', u ''Make quiz questions'', u ''Explain like I'm 12''] \<and>
   smart_suggestions (Some (u ''professional'')) =
     Inr [u ''Make an executive summary'', u ''Draft an email'', u ''Create a plan''] \<and>
   smart_suggestions (Some (u ''fun'')) =
     Inr [u ''Tell a pun'', u ''Make it playful'', u ''Add emojis''] \<and>
   (mode = None \<or> (\<exists>m. mode = Some m \<and> m \<notin> set (map mode_str [Qa, Writing, Translation, Summary, Student, Professional, Fun])) \<longrightarrow>
      smart_suggestions mode = smart_suggestions (Some (u ''qa''))) \<and>
   smart_suggestions (Some (u ''unknown'')) = smart_suggestions (Some (u ''qa''))"
proof -
  have len: "\<exists>xs. smart_suggestions mode = Inr xs \<and> length xs \<le> 3"
    by (simp add: smart_suggestions_def bank_def u_simps split: option.splits)
  have tbl:
    "smart_suggestions (Some (u ''qa'')) =
       Inr [u ''Explain in simple terms'', u ''Give key takeaways'', u ''Add examples'']"
    "smart_suggestions (Some (u ''writing'')) =
       Inr [u ''Draft an outline'', u ''Expand to 1000 words'', u ''Refine tone'']"
    "smart_suggestions (Some (u ''translation'')) =
       Inr [u ''Detect language'', u ''Back-translate'', u ''Transliterate'']"
    "smart_suggestions (Some (u ''summary'')) =
       Inr [u ''Bullet summary'', u ''TL;DR'', u ''Action items'']"
    "smart_suggestions (Some (u ''student'')) =
       Inr [u ''Create study notes'', u ''Make quiz questions'', u ''Explain like I'm 12'']"
    "smart_suggestions (Some (u ''professional'')) =
       Inr [u ''Make an executive summary'', u ''Draft an email'', u ''Create a plan'']"
    "smart_suggestions (Some (u ''fun'')) =
       Inr [u ''Tell a pun'', u ''Make it playful'', u ''Add emojis'']"
    by (simp_all add: smart_suggestions_def bank_def u_simps)
  have missing: "smart_suggestions None = smart_suggestions (Some (u ''qa''))"
    by (simp add: smart_suggestions_def u_simps)
  have unknown: "smart_suggestions (Some m) = smart_suggestions (Some (u ''qa''))"
    if "m \<notin> set (map mode_str [Qa, Writing, Translation, Summary, Student, Professional, Fun])" for m
    using that by (simp add: smart_suggestions_def bank_def u_simps)
  have "smart_suggestions (Some (u ''unknown'')) = smart_suggestions (Some (u ''qa''))"
    by (rule unknown) (simp add: u_simps)
  with len tbl missing unknown show ?thesis by blast
qed

text \<open>The fallback at a missing mode, at the mode \<open>other\<close> and at the empty mode.\<close>

theorem smart_suggestions_spec_witness:
  "smart_suggestions None = smart_suggestions (Some (u ''qa'')) \<and>
   smart_suggestions (Some (u ''other'')) = smart_suggestions (Some (u ''qa'')) \<and>
   smart_suggestions (Some []) = smart_suggestions (Some (u ''qa''))"
  using smart_suggestions_spec [of None] smart_suggestions_spec [of "Some (u ''other'')"]
    smart_suggestions_spec [of "Some []"]
  by (simp add: u_simps)

section \<open>The reply generator\<close>

subsection \<open>Lower-casing, trimming and splitting\<close>

text \<open>On an ASCII string \<open>lower\<close> does not consult the Unicode tables.\<close>

lemma py_lower_ascii:
  assumes "\<forall>c\<in>set s. c < 0x80"
  shows "py_lower L s = map (\<lambda>c. if 0x41 \<le> c \<and> c \<le> 0x5A then c + 32 else c) s"
proof -
  have "map (lower_at L s) [0..<length s]
        = map (\<lambda>i. [if 0x41 \<le> s ! i \<and> s ! i \<le> 0x5A then s ! i + 32 else s ! i]) [0..<length s]"
    using assms by (intro map_cong refl) (auto simp: lower_at_def Let_def)
  also have "\<dots> = map (\<lambda>c. [if 0x41 \<le> c \<and> c \<le> 0x5A then c + 32 else c]) (map ((!) s) [0..<length s])"
    by (simp add: comp_def)
  also have "\<dots> = map (\<lambda>c. [if 0x41 \<le> c \<and> c \<le> 0x5A then c + 32 else c]) s"
    by (simp only: map_nth)
  finally show ?thesis
    by (simp add: py_lower_def concat_map_singleton)
qed

lemma strip_literal [simp]:
  "py_strip (u ''hello'') = u ''hello''" "py_strip (u ''HELLO'') = u ''HELLO''"
  "py_strip (u ''anything else'') = u ''anything else''"
  by (simp_all add: py_strip_def u_simps isspace_def)

text \<open>
  Words joined by single spaces are already trimmed, and splitting them gives the words
  back.
\<close>

lemma split_from_word:
  "\<forall>c\<in>set w. \<not> isspace c \<Longrightarrow> split_from acc (w @ rest) = split_from (acc @ w) rest"
  by (induction w arbitrary: acc) simp_all

lemma isspace_32: "isspace 32"
  by (simp add: isspace_def)

lemma split_join:
  "\<forall>w\<in>set ws. is_word w \<Longrightarrow> split_from [] (py_join [32] ws) = ws"
proof (induction "[32::nat]" ws rule: py_join.induct)
  case 1
  then show ?case by simp
next
  case (2 w)
  then show ?case
    using split_from_word [of w "[]" "[]"] by (simp add: is_word_def)
next
  case (3 w v ws)
  have "split_from [] (w @ 32 # py_join [32] (v # ws)) = split_from w (32 # py_join [32] (v # ws))"
    using 3(2) split_from_word [of w "[]"] by (simp add: is_word_def)
  also have "\<dots> = w # split_from [] (py_join [32] (v # ws))"
    using 3(2) by (simp add: isspace_32 is_word_def)
  finally show ?case using 3 by simp
qed

lemma strip_id:
  assumes "s \<noteq> []" "\<not> isspace (hd s)" "\<not> isspace (last s)"
  shows "py_strip s = s"
proof -
  have 1: "dropWhile isspace s = s"
    using assms by (simp add: dropWhile_eq_self_iff)
  have 2: "dropWhile isspace (rev s) = rev s"
    using assms by (simp add: dropWhile_eq_self_iff hd_rev)
  show ?thesis by (simp add: py_strip_def 1 2)
qed

lemma join_hd_last:
  "ws \<noteq> [] \<Longrightarrow> \<forall>w\<in>set ws. is_word w \<Longrightarrow>
   py_join [32] ws \<noteq> [] \<and> hd (py_join [32] ws) = hd (hd ws) \<and> last (py_join [32] ws) = last (last ws)"
  by (induction "[32::nat]" ws rule: py_join.induct) (auto simp: is_word_def)

lemma strip_join:
  assumes "\<forall>w\<in>set ws. is_word w"
  shows "py_strip (py_join [32] ws) = py_join [32] ws"
proof (cases ws)
  case Nil
  then show ?thesis by (simp add: py_strip_def)
next
  case (Cons w vs)
  then have ne: "ws \<noteq> []" by simp
  have "is_word (hd ws)" "is_word (last ws)" using assms ne by auto
  then have "\<not> isspace (hd (hd ws))" "\<not> isspace (last (last ws))"
    by (auto simp: is_word_def)
  with join_hd_last [OF ne assms] show ?thesis by (intro strip_id) auto
qed

subsection \<open>Translation mode\<close>

text \<open>
  C3.  In translation mode the generator lower-cases the trimmed prompt and looks it up
  in the two-entry dictionary.  \<open>generate("hello", "translation", "ur")\<close> and
  \<open>generate("HELLO", "translation", "hi")\<close> give the Urdu and Hindi greeting behind
  \<open>Translation (ur): \<close> and \<open>Translation (hi): \<close>.  For every prompt whose lower-cased
  trimmed form is \<open>hello\<close> or \<open>how are you\<close>, the languages \<open>ur\<close> and \<open>hi\<close> give
  \<open>Translation (<language>): \<close> followed by the entry's text.  For every prompt whose
  lower-cased trimmed form is neither key, and for every language other than \<open>ur\<close> and
  \<open>hi\<close>, the result is \<open>Translation (<language>): \<close> followed by the trimmed prompt
  in its original case.
\<close>

theorem generate_reply_translation:
  "generate_reply L (u ''hello'') (u ''translation'') (u ''ur'') =
     u ''Translation (ur): '' @ [0x633, 0x644, 0x627, 0x645] \<and>
   generate_reply L (u ''HELLO'') (u ''translation'') (u ''hi'') =
     u ''Translation (hi): '' @ [0x928, 0x92E, 0x938, 0x94D, 0x924, 0x947] \<and>
   generate_reply L (u ''anything else'') (u ''translation'') (u ''ur'') =
     u ''Translation (ur): anything else'' \<and>
   (py_lower L (py_strip prompt) = u ''hello'' \<longrightarrow>
      generate_reply L prompt (u ''translation'') (u ''ur'') =
        u ''Translation (ur): '' @ [0x633, 0x644, 0x627, 0x645] \<and>
      generate_reply L prompt (u ''translation'') (u ''hi'') =
        u ''Translation (hi): '' @ [0x928, 0x92E, 0x938, 0x94D, 0x924, 0x947]) \<and>
   (py_lower L (py_strip prompt) = u ''how are you'' \<longrightarrow>
      generate_reply L prompt (u ''translation'') (u ''ur'') =
        u ''Translation (ur): '' @
        [0x622, 0x67E, 0x20, 0x6A9, 0x6CC, 0x633, 0x6D2, 0x20, 0x6C1, 0x6CC, 0x6BA] \<and>
      generate_reply L prompt (u ''translation'') (u ''hi'') =
        u ''Translation (hi): '' @
        [0x906, 0x92A, 0x20, 0x915, 0x948, 0x938, 0x947, 0x20, 0x939, 0x948, 0x902]) \<and>
   (py_lower L (py_strip prompt) \<notin> {u ''hello'', u ''how are you''} \<or>
    language \<notin> {u ''ur'', u ''hi''} \<longrightarrow>
      generate_reply L prompt (u ''translation'') language =
        u ''Translation ('' @ language @ u ''): '' @ py_strip prompt)"
proof -
  have low: "py_lower L (u ''hello'') = u ''hello''" "py_lower L (u ''HELLO'') = u ''hello''"
    "py_lower L (u ''anything else'') = u ''anything else''"
    by (simp_all add: py_lower_ascii u_simps)
  have ex: "generate_reply L (u ''hello'') (u ''translation'') (u ''ur'') =
       u ''Translation (ur): '' @ [0x633, 0x644, 0x627, 0x645]"
    "generate_reply L (u ''HELLO'') (u ''translation'') (u ''hi'') =
       u ''Translation (hi): '' @ [0x928, 0x92E, 0x938, 0x94D, 0x924, 0x947]"
    "generate_reply L (u ''anything else'') (u ''translation'') (u ''ur'') =
       u ''Translation (ur): anything else''"
    by (simp_all add: generate_reply_def low translation_table_def) (simp_all add: u_simps)
  have gen: "py_lower L (py_strip prompt) = u ''hello'' \<longrightarrow>
      generate_reply L prompt (u ''translation'') (u ''ur'') =
        u ''Translation (ur): '' @ [0x633, 0x644, 0x627, 0x645] \<and>
      generate_reply L prompt (u ''translation'') (u ''hi'') =
        u ''Translation (hi): '' @ [0x928, 0x92E, 0x938, 0x94D, 0x924, 0x947]"
   "py_lower L (py_strip prompt) = u ''how are you'' \<longrightarrow>
      generate_reply L prompt (u ''translation'') (u ''ur'') =
        u ''Translation (ur): '' @
        [0x622, 0x67E, 0x20, 0x6A9, 0x6CC, 0x633, 0x6D2, 0x20, 0x6C1, 0x6CC, 0x6BA] \<and>
      generate_reply L prompt (u ''translation'') (u ''hi'') =
        u ''Translation (hi): '' @
        [0x906, 0x92A, 0x20, 0x915, 0x948, 0x938, 0x947, 0x20, 0x939, 0x948, 0x902]"
    by (simp_all add: generate_reply_def translation_table_def) (simp_all add: u_simps)
  have fallback: "py_lower L (py_strip prompt) \<notin> {u ''hello'', u ''how are you''} \<or>
    language \<notin> {u ''ur'', u ''hi''} \<longrightarrow>
      generate_reply L prompt (u ''translation'') language =
        u ''Translation ('' @ language @ u ''): '' @ py_strip prompt"
    by (auto simp add: generate_reply_def translation_table_def Let_def split: option.splits if_splits)
  from ex gen fallback show ?thesis by blast
qed

text \<open>
  The entry for \<open>how are you\<close> reached from a padded, capitalised prompt; the entry for
  \<open>hello\<close>; a language without entry; a prompt that is no key.
\<close>

theorem generate_reply_translation_witness:
  "generate_reply (\<lambda>s i. [s ! i]) (u '' How are you '') (u ''translation'') (u ''hi'') =
     u ''Translation (hi): '' @
     [0x906, 0x92A, 0x20, 0x915, 0x948, 0x938, 0x947, 0x20, 0x939, 0x948, 0x902] \<and>
   generate_reply (\<lambda>s i. [s ! i]) (u ''Hello'') (u ''translation'') (u ''ur'') =
     u ''Translation (ur): '' @ [0x633, 0x644, 0x627, 0x645] \<and>
   generate_reply (\<lambda>s i. [s ! i]) (u ''hello'') (u ''translation'') (u ''en'') =
     u ''Translation (en): hello'' \<and>
   generate_reply (\<lambda>s i. [s ! i]) (u '' Good Morning'') (u ''translation'') (u ''ur'') =
     u ''Translation (ur): Good Morning''"
proof -
  have s: "py_strip (u '' How are you '') = u ''How are you''"
    "py_strip (u ''Hello'') = u ''Hello''"
    "py_strip (u '' Good Morning'') = u ''Good Morning''"
    by (simp_all add: py_strip_def u_simps isspace_def)
  have l: "py_lower (\<lambda>s i. [s ! i]) (u ''How are you'') = u ''how are you''"
    "py_lower (\<lambda>s i. [s ! i]) (u ''Hello'') = u ''hello''"
    "py_lower (\<lambda>s i. [s ! i]) (u ''hello'') = u ''hello''"
    "py_lower (\<lambda>s i. [s ! i]) (u ''Good Morning'') = u ''good morning''"
    by (simp_all add: py_lower_ascii u_simps)
  show ?thesis
    using generate_reply_translation [of "\<lambda>s i. [s ! i]" "u '' How are you ''" "u ''hi''"]
      generate_reply_translation [of "\<lambda>s i. [s ! i]" "u ''Hello''" "u ''ur''"]
      generate_reply_translation [of "\<lambda>s i. [s ! i]" "u ''hello''" "u ''en''"]
      generate_reply_translation [of "\<lambda>s i. [s ! i]" "u '' Good Morning''" "u ''ur''"]
    by (simp add: s l) (simp add: u_simps)
qed

subsection \<open>Summary mode\<close>

text \<open>
  C5, as the code has it.  In summary mode the generator splits the trimmed prompt into
  words at white space.  With more than 40 words the result is \<open>Summary: \<close>, the first
  40 words joined by single spaces, and the ellipsis character; with at most 40 words it
  is \<open>Summary: \<close> followed by the trimmed prompt, its inner white space untouched.  In
  particular 41 words separated by single spaces give the first 40 and the ellipsis, and
  up to 40 words separated by single spaces come back unchanged.
\<close>

theorem generate_reply_summary:
  "(length (py_split (py_strip prompt)) > 40 \<longrightarrow>
      generate_reply L prompt (u ''summary'') language =
        u ''Summary: '' @ py_join (u '' '') (take 40 (py_split (py_strip prompt))) @ [0x2026]) \<and>
   (length (py_split (py_strip prompt)) \<le> 40 \<longrightarrow>
      generate_reply L prompt (u ''summary'') language = u ''Summary: '' @ py_strip prompt) \<and>
   ((\<forall>w\<in>set ws. is_word w) \<and> length ws = 41 \<longrightarrow>
      generate_reply L (py_join (u '' '') ws) (u ''summary'') language =
        u ''Summary: '' @ py_join (u '' '') (take 40 ws) @ [0x2026]) \<and>
   ((\<forall>w\<in>set ws. is_word w) \<and> length ws \<le> 40 \<longrightarrow>
      generate_reply L (py_join (u '' '') ws) (u ''summary'') language =
        u ''Summary: '' @ py_join (u '' '') ws)"
proof -
  have sp: "u '' '' = [32]" by (simp add: u_simps)
  have neq: "u ''summary'' \<noteq> u ''translation''" by (simp add: u_simps)
  have a: "generate_reply L p (u ''summary'') language =
        u ''Summary: '' @ (if length (py_split (py_strip p)) > 40
          then py_join (u '' '') (take 40 (py_split (py_strip p))) @ [0x2026] else py_strip p)" for p
    by (simp add: generate_reply_def Let_def neq)
  have b: "py_split (py_strip (py_join (u '' '') ws)) = ws" if "\<forall>w\<in>set ws. is_word w"
    using that by (simp add: sp strip_join split_join py_split_def)
  have c: "py_strip (py_join (u '' '') ws) = py_join (u '' '') ws" if "\<forall>w\<in>set ws. is_word w"
    using that by (simp add: sp strip_join)
  have d: "generate_reply L (py_join (u '' '') ws) (u ''summary'') language =
        u ''Summary: '' @ (if length ws > 40
          then py_join (u '' '') (take 40 ws) @ [0x2026] else py_join (u '' '') ws)"
    if "\<forall>w\<in>set ws. is_word w"
  proof -
    have "py_split (py_join (u '' '') ws) = ws"
      using that by (simp add: sp split_join py_split_def)
    then show ?thesis
      by (simp add: a c [OF that])
  qed
  show ?thesis
    using d by (simp add: a)
qed

text \<open>Forty-one words, forty words, and a short prompt with white space around it.\<close>

theorem generate_reply_summary_witness:
  "generate_reply (\<lambda>s i. [s ! i]) (py_join (u '' '') (replicate 41 (u ''w''))) (u ''summary'') (u ''en'') =
     u ''Summary: '' @ py_join (u '' '') (replicate 40 (u ''w'')) @ [0x2026] \<and>
   generate_reply (\<lambda>s i. [s ! i]) (py_join (u '' '') (replicate 40 (u ''w''))) (u ''summary'') (u ''en'') =
     u ''Summary: '' @ py_join (u '' '') (replicate 40 (u ''w'')) \<and>
   generate_reply (\<lambda>s i. [s ! i]) (u '' a  b '') (u ''summary'') (u ''en'') = u ''Summary: a  b''"
proof -
  have iw: "is_word (u ''w'')"
    by (simp add: is_word_def u_simps isspace_def)
  have s: "py_strip (u '' a  b '') = u ''a  b''"
    by (simp add: py_strip_def u_simps isspace_def)
  have n: "length (py_split (u ''a  b'')) \<le> 40"
    by (simp add: py_split_def u_simps isspace_def)
  show ?thesis
    using generate_reply_summary [of "u '' a  b ''" "\<lambda>s i. [s ! i]" "u ''en''" "replicate 41 (u ''w'')"]
      generate_reply_summary [of "u '' a  b ''" "\<lambda>s i. [s ! i]" "u ''en''" "replicate 40 (u ''w'')"]
    by (simp add: iw s n) (simp add: u_simps)
qed

text \<open>
  C5 as the spec words it returns the prompt unchanged when it has at most 40 words.  A
  one-word prompt with a leading space comes back without that space.
\<close>

theorem generate_reply_summary_counterexample:
  "length (py_split (u '' a'')) \<le> 40 \<and>
   generate_reply (\<lambda>s i. [s ! i]) (u '' a'') (u ''summary'') (u ''en'') = u ''Summary: a'' \<and>
   generate_reply (\<lambda>s i. [s ! i]) (u '' a'') (u ''summary'') (u ''en'') \<noteq> u ''Summary: '' @ u '' a''"
  by (simp add: generate_reply_def py_split_def py_strip_def isspace_def u_simps)

section \<open>The conversation orchestrator\<close>

subsection \<open>What a call does to the store\<close>

text \<open>
  A step of the handler returns exactly when the step before it returned; an insert
  returns exactly when the database answers with an id, and is logged either way.
\<close>

lemma io_bind_returns:
  "io_bind m f s = (Inr y, s') \<longleftrightarrow> (\<exists>x s1. m s = (Inr x, s1) \<and> f x s1 = (Inr y, s'))"
  by (auto simp: io_bind_def split: prod.splits sum.splits)

lemma create_document_returns:
  "create_document db c d s = (Inr i, s') \<longleftrightarrow> db s c d = Inr i \<and> s' = s @ [(c, d)]"
  by (auto simp: create_document_def)

lemma io_return_returns: "io_return x s = (Inr y, s') \<longleftrightarrow> y = x \<and> s' = s"
  by (auto simp: io_return_def)

lemma smart_suggestions_total:
  "\<exists>xs. smart_suggestions m = Inr xs"
  by (simp add: smart_suggestions_def bank_def u_simps split: option.splits)

lemma chat_returns:
  "chat e req s = (Inr resp, s') \<longleftrightarrow>
   (\<exists>sid pre i j sg.
      ((req_session_id req = None \<or> req_session_id req = Some []) \<and>
         env_db e s (u ''chatsession'') (SessionDoc (session e req)) = Inr sid \<and>
         pre = [(u ''chatsession'', SessionDoc (session e req))]
       \<or> req_session_id req = Some sid \<and> sid \<noteq> [] \<and> pre = []) \<and>
      env_db e (s @ pre) (u ''chatmessage'') (MessageDoc (user_msg req sid)) = Inr i \<and>
      env_db e (s @ pre @ [(u ''chatmessage'', MessageDoc (user_msg req sid))])
        (u ''chatmessage'') (MessageDoc (assistant_msg e req sid)) = Inr j \<and>
      smart_suggestions (Some (mode_or_qa req)) = Inr sg \<and>
      s' = s @ pre @ [(u ''chatmessage'', MessageDoc (user_msg req sid)),
                      (u ''chatmessage'', MessageDoc (assistant_msg e req sid))] \<and>
      resp = \<lparr>resp_session_id = sid, resp_reply = reply_text e req,
               resp_suggestions = sg, resp_mode = mode_or_qa req,
               resp_created_at = env_iso e\<rparr>)"
proof -
  obtain sg where sg: "smart_suggestions (Some (mode_or_qa req)) = Inr sg"
    using smart_suggestions_total by blast
  show ?thesis
    unfolding chat_def io_bind_returns
    by (auto simp: sg create_document_returns io_return_returns split: option.splits)
qed


lemma collections_distinct:
  "u ''chatmessage'' \<noteq> u ''chatsession''" "u ''chatsession'' \<noteq> u ''chatmessage''"
  by (simp_all add: u_simps)

lemma chat_log:
  assumes "chat e req s = (r, s')"
  shows "\<exists>calls. s' = s @ calls \<and>
     filter (\<lambda>cd. fst cd = u ''chatsession'') calls =
       (if req_session_id req = None \<or> req_session_id req = Some []
        then [(u ''chatsession'', SessionDoc (session e req))] else [])"
  using assms unfolding chat_def io_bind_def create_document_def io_return_def io_raise_def
  by (auto simp: collections_distinct split: option.splits sum.splits if_splits prod.splits)

lemma chat_progress:
  assumes "\<forall>s c d. \<exists>i. env_db e s c d = Inr i"
  shows "\<exists>resp s'. chat e req s = (Inr resp, s')"
proof -
  let ?pre = "if req_session_id req = None \<or> req_session_id req = Some []
    then [(u ''chatsession'', SessionDoc (session e req))] else []"
  obtain sid0 where a: "env_db e s (u ''chatsession'') (SessionDoc (session e req)) = Inr sid0"
    using assms by blast
  define sid where "sid = (case req_session_id req of None \<Rightarrow> sid0 | Some x \<Rightarrow> if x = [] then sid0 else x)"
  obtain i where b: "env_db e (s @ ?pre) (u ''chatmessage'') (MessageDoc (user_msg req sid)) = Inr i"
    using assms by blast
  obtain j where c: "env_db e (s @ ?pre @ [(u ''chatmessage'', MessageDoc (user_msg req sid))])
        (u ''chatmessage'') (MessageDoc (assistant_msg e req sid)) = Inr j"
    using assms by blast
  obtain sg where d: "smart_suggestions (Some (mode_or_qa req)) = Inr sg"
    using smart_suggestions_total by blast
  have "chat e req s =
    (Inr \<lparr>resp_session_id = sid, resp_reply = reply_text e req,
               resp_suggestions = sg, resp_mode = mode_or_qa req,
               resp_created_at = env_iso e\<rparr>,
     s @ ?pre @ [(u ''chatmessage'', MessageDoc (user_msg req sid)),
                      (u ''chatmessage'', MessageDoc (assistant_msg e req sid))])"
    unfolding chat_returns using a b c d
    by (cases "req_session_id req") (auto simp: sid_def)
  then show ?thesis by blast
qed

lemma demo_db: "env_db demo_env s c d = Inr (u ''s1'')"
  by (simp add: demo_env_def)

lemma demo_reply:
  "reply_text demo_env demo_request = u ''Translation (ur): '' @ [0x633, 0x644, 0x627, 0x645]"
proof -
  have "py_lower (\<lambda>s i. [s ! i]) (u ''hello'') = u ''hello''"
    by (simp add: py_lower_ascii u_simps)
  then show ?thesis
    by (simp add: reply_text_def demo_env_def demo_request_def mode_or_qa_def language_or_en_def
        generate_reply_def translation_table_def tone_wrap_def)
      (simp add: u_simps)
qed

subsection \<open>Sessions\<close>

text \<open>
  C1.  A chat call whose \<open>session_id\<close> is absent or empty asks for exactly one insert
  into \<open>chatsession\<close>, and when it returns a response, the \<open>session_id\<close> of the response
  is the id the database assigned to that insert.  A chat call with a non-empty
  \<open>session_id\<close> asks for no insert into \<open>chatsession\<close>, and when it returns a response,
  the response carries the same id unchanged.  A call returns a response whenever the
  database accepts the inserts (a failing insert ends the call with that failure).
\<close>

theorem chat_session_id:
  "(req_session_id req = None \<or> req_session_id req = Some [] \<longrightarrow>
      (\<exists>calls. snd (chat e req s) = s @ calls \<and>
         length (filter (\<lambda>cd. fst cd = u ''chatsession'') calls) = 1) \<and>
      (\<forall>resp. fst (chat e req s) = Inr resp \<longrightarrow>
         env_db e s (u ''chatsession'') (SessionDoc (session e req)) = Inr (resp_session_id resp))) \<and>
   (\<forall>sid. req_session_id req = Some sid \<and> sid \<noteq> [] \<longrightarrow>
      (\<exists>calls. snd (chat e req s) = s @ calls \<and>
         filter (\<lambda>cd. fst cd = u ''chatsession'') calls = []) \<and>
      (\<forall>resp. fst (chat e req s) = Inr resp \<longrightarrow> resp_session_id resp = sid)) \<and>
   ((\<forall>s c d. \<exists>i. env_db e s c d = Inr i) \<longrightarrow> (\<exists>resp. fst (chat e req s) = Inr resp))"
proof -
  have eq: "chat e req s = (fst (chat e req s), snd (chat e req s))" by simp
  have ret: "chat e req s = (Inr resp, snd (chat e req s))" if "fst (chat e req s) = Inr resp" for resp
    using that eq by metis
  have 1: "(\<exists>calls. snd (chat e req s) = s @ calls \<and>
         length (filter (\<lambda>cd. fst cd = u ''chatsession'') calls) = 1)"
    if "req_session_id req = None \<or> req_session_id req = Some []"
    using chat_log [OF eq] that by auto
  have 2: "env_db e s (u ''chatsession'') (SessionDoc (session e req)) = Inr (resp_session_id resp)"
    if "req_session_id req = None \<or> req_session_id req = Some []" "fst (chat e req s) = Inr resp" for resp
    using ret [OF that(2)] that(1) unfolding chat_returns by auto
  have 3: "(\<exists>calls. snd (chat e req s) = s @ calls \<and>
         filter (\<lambda>cd. fst cd = u ''chatsession'') calls = [])"
    if "req_session_id req = Some sid" "sid \<noteq> []" for sid
    using chat_log [OF eq] that by auto
  have 4: "resp_session_id resp = sid"
    if "req_session_id req = Some sid" "sid \<noteq> []" "fst (chat e req s) = Inr resp" for resp sid
    using ret [OF that(3)] that(1,2) unfolding chat_returns by auto
  have 5: "\<exists>resp. fst (chat e req s) = Inr resp" if "\<forall>s c d. \<exists>i. env_db e s c d = Inr i"
    using chat_progress [OF that, of req s] by auto
  from 1 2 3 4 5 show ?thesis by blast
qed

text \<open>
  A first call without session id is given the id \<open>s1\<close> with one session insert; the
  next call, made with \<open>s1\<close>, keeps it and inserts no session.
\<close>

theorem chat_session_id_witness:
  "resp_session_id (projr (fst (chat demo_env demo_request []))) = u ''s1'' \<and>
   (\<exists>calls. snd (chat demo_env demo_request []) = calls \<and>
      length (filter (\<lambda>cd. fst cd = u ''chatsession'') calls) = 1) \<and>
   resp_session_id
     (projr (fst (chat demo_env (demo_request\<lparr>req_session_id := Some (u ''s1'')\<rparr>) []))) = u ''s1'' \<and>
   (\<exists>calls. snd (chat demo_env (demo_request\<lparr>req_session_id := Some (u ''s1'')\<rparr>) []) = calls \<and>
      filter (\<lambda>cd. fst cd = u ''chatsession'') calls = [])"
proof -
  have ne: "u ''s1'' \<noteq> []" by (simp add: u_simps)
  have a: "req_session_id demo_request = None" by (simp add: demo_request_def)
  note t1 = chat_session_id [of demo_request demo_env "[]"]
  note t2 = chat_session_id [of "demo_request\<lparr>req_session_id := Some (u ''s1'')\<rparr>" demo_env "[]"]
  from t1 obtain r1 where r1: "fst (chat demo_env demo_request []) = Inr r1"
    using demo_db by blast
  from t2 obtain r2 where
    r2: "fst (chat demo_env (demo_request\<lparr>req_session_id := Some (u ''s1'')\<rparr>) []) = Inr r2"
    using demo_db by blast
  have "resp_session_id r1 = u ''s1''" using t1 r1 a demo_db by auto
  moreover have "resp_session_id r2 = u ''s1''" using t2 r2 ne by auto
  ultimately show ?thesis using t1 t2 r1 r2 a ne by auto
qed

subsection \<open>Messages\<close>

text \<open>
  C2.  A chat call that returns a response has asked for exactly two inserts into
  \<open>chatmessage\<close>, in this order: a message of role \<open>user\<close> whose content is the message
  text of the request as it came in, then a message of role \<open>assistant\<close> whose content is
  the reply of the response, which is the tone-wrapped output of the generator; both
  carry the session id of the response.  A call returns a response whenever the
  database accepts the inserts.
\<close>

theorem chat_messages:
  "(chat e req s = (Inr resp, s') \<longrightarrow>
      (\<exists>calls. s' = s @ calls \<and>
         filter (\<lambda>cd. fst cd = u ''chatmessage'') calls =
           [(u ''chatmessage'',
             MessageDoc \<lparr>cm_session_id = resp_session_id resp, cm_role = User,
                          cm_content = req_message req, cm_mode = req_mode req,
                          cm_meta = None\<rparr>),
            (u ''chatmessage'',
             MessageDoc \<lparr>cm_session_id = resp_session_id resp, cm_role = Assistant,
                          cm_content = resp_reply resp, cm_mode = req_mode req,
                          cm_meta = None\<rparr>)]) \<and>
      resp_reply resp =
        tone_wrap
          (generate_reply (env_lower e) (req_message req) (mode_or_qa req) (language_or_en req))
          (mode_or_qa req)) \<and>
   ((\<forall>s c d. \<exists>i. env_db e s c d = Inr i) \<longrightarrow> (\<exists>resp s'. chat e req s = (Inr resp, s')))"
proof -
  have "\<exists>calls. s' = s @ calls \<and>
         filter (\<lambda>cd. fst cd = u ''chatmessage'') calls =
           [(u ''chatmessage'',
             MessageDoc \<lparr>cm_session_id = resp_session_id resp, cm_role = User,
                          cm_content = req_message req, cm_mode = req_mode req,
                          cm_meta = None\<rparr>),
            (u ''chatmessage'',
             MessageDoc \<lparr>cm_session_id = resp_session_id resp, cm_role = Assistant,
                          cm_content = resp_reply resp, cm_mode = req_mode req,
                          cm_meta = None\<rparr>)]"
    if "chat e req s = (Inr resp, s')"
    using that unfolding chat_returns
    by (auto simp: user_msg_def assistant_msg_def collections_distinct)
  moreover have "resp_reply resp =
        tone_wrap
          (generate_reply (env_lower e) (req_message req) (mode_or_qa req) (language_or_en req))
          (mode_or_qa req)"
    if "chat e req s = (Inr resp, s')"
    using that unfolding chat_returns by (auto simp: reply_text_def)
  ultimately show ?thesis using chat_progress [of e req s] by blast
qed

text \<open>The two messages of the first call of the example conversation.\<close>

theorem chat_messages_witness:
  "(\<exists>calls. snd (chat demo_env demo_request []) = calls \<and>
      filter (\<lambda>cd. fst cd = u ''chatmessage'') calls =
        [(u ''chatmessage'',
          MessageDoc \<lparr>cm_session_id = u ''s1'', cm_role = User, cm_content = u ''hello'',
                       cm_mode = Some Translation, cm_meta = None\<rparr>),
         (u ''chatmessage'',
          MessageDoc \<lparr>cm_session_id = u ''s1'', cm_role = Assistant,
                       cm_content = u ''Translation (ur): '' @ [0x633, 0x644, 0x627, 0x645],
                       cm_mode = Some Translation, cm_meta = None\<rparr>)]) \<and>
   resp_reply (projr (fst (chat demo_env demo_request []))) =
     u ''Translation (ur): '' @ [0x633, 0x644, 0x627, 0x645]"
proof -
  note t = chat_messages [of demo_env demo_request "[]"]
  from t obtain r s' where run: "chat demo_env demo_request [] = (Inr r, s')"
    using demo_db by blast
  have sid: "resp_session_id r = u ''s1''"
    using run demo_db unfolding chat_returns by (auto simp: demo_request_def)
  have rep: "resp_reply r = u ''Translation (ur): '' @ [0x633, 0x644, 0x627, 0x645]"
    using run demo_reply unfolding chat_returns by auto
  have req: "req_message demo_request = u ''hello''" "req_mode demo_request = Some Translation"
    by (simp_all add: demo_request_def)
  show ?thesis
    using t [of r s'] run sid rep req by auto
qed

subsection \<open>A request whose mode is null\<close>

lemma qa_suggestions:
  "smart_suggestions (Some (u ''qa'')) =
     Inr [u ''Explain in simple terms'', u ''Give key takeaways'', u ''Add examples'']"
  by (simp add: smart_suggestions_def bank_def u_simps)

lemma demo_qa_reply:
  "reply_text demo_env (demo_request\<lparr>req_mode := None\<rparr>) =
     u ''Answer: hello\<newline>\<newline>Key points:\<newline>- Direct answer\<newline>- Extra context\<newline>- Practical tip''"
  by (simp add: reply_text_def demo_env_def demo_request_def mode_or_qa_def language_or_en_def
      generate_reply_def tone_wrap_def)
    (simp add: u_simps)

text \<open>
  C9.  When a chat request carries \<open>mode = null\<close> and the call returns a response, the
  reply is the tone-wrapped generator output for the mode \<open>qa\<close>, the suggestions are
  the \<open>qa\<close> entry of the bank and the echoed mode is \<open>qa\<close>: the same reply, suggestions
  and mode as any returning call with the same request and \<open>mode = "qa"\<close>.  The two
  persisted \<open>chatmessage\<close> records carry \<open>mode = null\<close>, not \<open>qa\<close>.  A call returns a
  response whenever the database accepts the inserts.
\<close>

theorem chat_null_mode:
  "(req_mode req = None \<and> chat e req s = (Inr resp, s') \<longrightarrow>
      resp_reply resp =
        tone_wrap (generate_reply (env_lower e) (req_message req) (u ''qa'') (language_or_en req))
          (u ''qa'') \<and>
      resp_suggestions resp =
        [u ''Explain in simple terms'', u ''Give key takeaways'', u ''Add examples''] \<and>
      resp_mode resp = u ''qa'' \<and>
      (\<exists>calls. s' = s @ calls \<and>
         filter (\<lambda>cd. fst cd = u ''chatmessage'') calls =
           [(u ''chatmessage'',
             MessageDoc \<lparr>cm_session_id = resp_session_id resp, cm_role = User,
                          cm_content = req_message req, cm_mode = None, cm_meta = None\<rparr>),
            (u ''chatmessage'',
             MessageDoc \<lparr>cm_session_id = resp_session_id resp, cm_role = Assistant,
                          cm_content = resp_reply resp, cm_mode = None, cm_meta = None\<rparr>)]) \<and>
      (\<forall>e2 s2 resp2 s2'.
         env_lower e2 = env_lower e \<and>
         chat e2 (req\<lparr>req_mode := Some Qa\<rparr>) s2 = (Inr resp2, s2') \<longrightarrow>
           resp_reply resp2 = resp_reply resp \<and>
           resp_suggestions resp2 = resp_suggestions resp \<and>
           resp_mode resp2 = resp_mode resp)) \<and>
   ((\<forall>s c d. \<exists>i. env_db e s c d = Inr i) \<longrightarrow> (\<exists>resp s'. chat e req s = (Inr resp, s')))"
proof -
  have main: "resp_reply resp =
        tone_wrap (generate_reply (env_lower e) (req_message req) (u ''qa'') (language_or_en req))
          (u ''qa'') \<and>
      resp_suggestions resp =
        [u ''Explain in simple terms'', u ''Give key takeaways'', u ''Add examples''] \<and>
      resp_mode resp = u ''qa'' \<and>
      (\<exists>calls. s' = s @ calls \<and>
         filter (\<lambda>cd. fst cd = u ''chatmessage'') calls =
           [(u ''chatmessage'',
             MessageDoc \<lparr>cm_session_id = resp_session_id resp, cm_role = User,
                          cm_content = req_message req, cm_mode = None, cm_meta = None\<rparr>),
            (u ''chatmessage'',
             MessageDoc \<lparr>cm_session_id = resp_session_id resp, cm_role = Assistant,
                          cm_content = resp_reply resp, cm_mode = None, cm_meta = None\<rparr>)])"
    if "req_mode req = None" "chat e req s = (Inr resp, s')"
    using that(2) unfolding chat_returns
    by (auto simp: that(1) user_msg_def assistant_msg_def collections_distinct reply_text_def
        mode_or_qa_def qa_suggestions)
  have same: "resp_reply resp2 = resp_reply resp \<and>
           resp_suggestions resp2 = resp_suggestions resp \<and>
           resp_mode resp2 = resp_mode resp"
    if "req_mode req = None" "chat e req s = (Inr resp, s')" "env_lower e2 = env_lower e"
      "chat e2 (req\<lparr>req_mode := Some Qa\<rparr>) s2 = (Inr resp2, s2')" for e2 s2 resp2 s2'
    using that(2,4) unfolding chat_returns
    by (auto simp: that(1,3) reply_text_def mode_or_qa_def language_or_en_def)
  show ?thesis
    using main same chat_progress [of e req s] by blast
qed

text \<open>The example request with its mode set to null, against the same with \<open>qa\<close>.\<close>

theorem chat_null_mode_witness:
  "resp_reply (projr (fst (chat demo_env (demo_request\<lparr>req_mode := None\<rparr>) []))) =
     u ''Answer: hello\<newline>\<newline>Key points:\<newline>- Direct answer\<newline>- Extra context\<newline>- Practical tip'' \<and>
   resp_suggestions (projr (fst (chat demo_env (demo_request\<lparr>req_mode := None\<rparr>) []))) =
     [u ''Explain in simple terms'', u ''Give key takeaways'', u ''Add examples''] \<and>
   resp_mode (projr (fst (chat demo_env (demo_request\<lparr>req_mode := None\<rparr>) []))) = u ''qa'' \<and>
   (\<exists>calls. snd (chat demo_env (demo_request\<lparr>req_mode := None\<rparr>) []) = calls \<and>
      filter (\<lambda>cd. fst cd = u ''chatmessage'') calls =
        [(u ''chatmessage'',
          MessageDoc \<lparr>cm_session_id = u ''s1'', cm_role = User, cm_content = u ''hello'',
                       cm_mode = None, cm_meta = None\<rparr>),
         (u ''chatmessage'',
          MessageDoc \<lparr>cm_session_id = u ''s1'', cm_role = Assistant,
                       cm_content = u ''Answer: hello\<newline>\<newline>Key points:\<newline>- Direct answer\<newline>- Extra context\<newline>- Practical tip'',
                       cm_mode = None, cm_meta = None\<rparr>)]) \<and>
   resp_reply (projr (fst (chat demo_env (demo_request\<lparr>req_mode := Some Qa\<rparr>) []))) =
     resp_reply (projr (fst (chat demo_env (demo_request\<lparr>req_mode := None\<rparr>) [])))"
proof -
  let ?R = "demo_request\<lparr>req_mode := None\<rparr>"
  note t = chat_null_mode [of ?R demo_env "[]"]
  from t obtain r s' where run: "chat demo_env ?R [] = (Inr r, s')"
    using demo_db by blast
  obtain r2 s2' where run2: "chat demo_env (?R\<lparr>req_mode := Some Qa\<rparr>) [] = (Inr r2, s2')"
    using chat_progress [of demo_env] demo_db by blast
  have sid: "resp_session_id r = u ''s1''"
    using run demo_db unfolding chat_returns by (auto simp: demo_request_def)
  have rep: "resp_reply r =
     u ''Answer: hello\<newline>\<newline>Key points:\<newline>- Direct answer\<newline>- Extra context\<newline>- Practical tip''"
    using run demo_qa_reply unfolding chat_returns by auto
  have req: "req_message ?R = u ''hello''" "req_mode ?R = None"
    by (simp_all add: demo_request_def)
  have same: "resp_reply r2 = resp_reply r"
    using t [of r s'] run run2 req by blast
  have rest: "resp_suggestions r =
        [u ''Explain in simple terms'', u ''Give key takeaways'', u ''Add examples''] \<and>
      resp_mode r = u ''qa'' \<and>
      (\<exists>calls. s' = [] @ calls \<and>
         filter (\<lambda>cd. fst cd = u ''chatmessage'') calls =
           [(u ''chatmessage'',
             MessageDoc \<lparr>cm_session_id = resp_session_id r, cm_role = User,
                          cm_content = req_message ?R, cm_mode = None, cm_meta = None\<rparr>),
            (u ''chatmessage'',
             MessageDoc \<lparr>cm_session_id = resp_session_id r, cm_role = Assistant,
                          cm_content = resp_reply r, cm_mode = None, cm_meta = None\<rparr>)])"
    using t [of r s'] run req by blast
  have q: "demo_request\<lparr>req_mode := Some Qa\<rparr> = ?R\<lparr>req_mode := Some Qa\<rparr>" by simp
  show ?thesis
    unfolding q using run run2 same rest sid rep req by auto
qed

subsection \<open>Determinism\<close>

text \<open>
  C10.  Reply generation is deterministic.  Equal prompt, mode and language give equal
  generated replies; equal text and mode give equal wrapped texts; equal modes give equal
  suggestions.  At the level of the handler: two calls that return, whatever their
  databases, stores, clocks and session ids, give the same reply and the same
  suggestions when their requests agree on message, mode and language.
\<close>

theorem reply_deterministic:
  "(prompt = prompt' \<and> mode = mode' \<and> language = language' \<longrightarrow>
      generate_reply L prompt mode language = generate_reply L prompt' mode' language') \<and>
   (text = text' \<and> mode = mode' \<longrightarrow> tone_wrap text mode = tone_wrap text' mode') \<and>
   (m = m' \<longrightarrow> smart_suggestions m = smart_suggestions m') \<and>
   (chat e1 req1 s1 = (Inr resp1, s1') \<and> chat e2 req2 s2 = (Inr resp2, s2') \<and>
    env_lower e1 = env_lower e2 \<and> req_message req1 = req_message req2 \<and>
    req_mode req1 = req_mode req2 \<and> req_language req1 = req_language req2 \<longrightarrow>
      resp_reply resp1 = resp_reply resp2 \<and> resp_suggestions resp1 = resp_suggestions resp2)"
proof -
  have "resp_reply resp1 = resp_reply resp2 \<and> resp_suggestions resp1 = resp_suggestions resp2"
    if "chat e1 req1 s1 = (Inr resp1, s1')" "chat e2 req2 s2 = (Inr resp2, s2')"
      "env_lower e1 = env_lower e2" "req_message req1 = req_message req2"
      "req_mode req1 = req_mode req2" "req_language req1 = req_language req2"
    using that(1,2) unfolding chat_returns
    by (auto simp: that(3-6) reply_text_def mode_or_qa_def language_or_en_def)
  then show ?thesis by blast
qed

text \<open>
  The example request against two different worlds: another database answer, another
  session, a store that already holds a document.
\<close>

theorem reply_deterministic_witness:
  "resp_reply (projr (fst (chat demo_env demo_request []))) =
   resp_reply
     (projr (fst (chat (demo_env\<lparr>env_db := (\<lambda>s c d. Inr (u ''s2''))\<rparr>)
        (demo_request\<lparr>req_session_id := Some (u ''s9'')\<rparr>)
        [(u ''imagerequest'', ImageDoc \<lparr>rec_prompt = u ''sky'', rec_style = None\<rparr>)]))) \<and>
   resp_suggestions (projr (fst (chat demo_env demo_request []))) =
   resp_suggestions
     (projr (fst (chat (demo_env\<lparr>env_db := (\<lambda>s c d. Inr (u ''s2''))\<rparr>)
        (demo_request\<lparr>req_session_id := Some (u ''s9'')\<rparr>)
        [(u ''imagerequest'', ImageDoc \<lparr>rec_prompt = u ''sky'', rec_style = None\<rparr>)])))"
proof -
  let ?E2 = "demo_env\<lparr>env_db := (\<lambda>s c d. Inr (u ''s2''))\<rparr>"
  let ?R2 = "demo_request\<lparr>req_session_id := Some (u ''s9'')\<rparr>"
  let ?S2 = "[(u ''imagerequest'', ImageDoc \<lparr>rec_prompt = u ''sky'', rec_style = None\<rparr>)]"
  obtain r1 s1' where run1: "chat demo_env demo_request [] = (Inr r1, s1')"
    using chat_progress [of demo_env] demo_db by blast
  have "\<forall>s c d. \<exists>i. env_db ?E2 s c d = Inr i" by simp
  then obtain r2 s2' where run2: "chat ?E2 ?R2 ?S2 = (Inr r2, s2')"
    using chat_progress [of ?E2 ?R2 ?S2] by blast
  have "resp_reply r1 = resp_reply r2 \<and> resp_suggestions r1 = resp_suggestions r2"
    using reply_deterministic [of "u ''hello''" "u ''hello''" "u ''qa''" "u ''qa''" "u ''en''" "u ''en''"
        "\<lambda>s i. [s ! i]" "u ''hello''" "u ''hello''" None None
        demo_env demo_request "[]" r1 s1' ?E2 ?R2 ?S2 r2 s2'] run1 run2
    by simp
  then show ?thesis using run1 run2 by simp
qed

section \<open>The image placeholder\<close>

subsection \<open>The encodings round-trip\<close>

text \<open>
  Base64 decodes back to the bytes it encoded, its output is ASCII, and strict UTF-8
  decoding gives back the string that was encoded; the strings that can be encoded are
  those of scalar values.
\<close>

lemma b64_index_char: "i < 64 \<Longrightarrow> b64_index (b64_char i) = Some i"
  by (auto simp: b64_index_def b64_char_def)

lemma b64_char_not_pad: "b64_char i \<noteq> 0x3D"
  by (auto simp: b64_char_def)

lemma b64_char_ascii: "i < 64 \<Longrightarrow> b64_char i < 0x80"
  by (auto simp: b64_char_def)

lemma sextets:
  fixes a b c :: nat
  assumes "a < 256" "b < 256" "c < 256"
  shows "a div 4 < 64" "(a mod 4) * 16 < 64" "(a mod 4) * 16 + b div 16 < 64"
    "(b mod 16) * 4 < 64" "(b mod 16) * 4 + c div 64 < 64" "c mod 64 < 64"
  using assms by simp_all

lemma octets1:
  fixes a b c :: nat
  shows "a div 4 * 4 + ((a mod 4) * 16) div 16 = a"
    "b < 256 \<Longrightarrow> a div 4 * 4 + ((a mod 4) * 16 + b div 16) div 16 = a"
  by simp_all

lemma octets2:
  fixes a b c :: nat
  shows "b < 256 \<Longrightarrow> (((a mod 4) * 16 + b div 16) mod 16) * 16 + ((b mod 16) * 4) div 4 = b"
    "b < 256 \<Longrightarrow> c < 256 \<Longrightarrow>
      (((a mod 4) * 16 + b div 16) mod 16) * 16 + ((b mod 16) * 4 + c div 64) div 4 = b"
    "c < 256 \<Longrightarrow> (((b mod 16) * 4 + c div 64) mod 4) * 64 + c mod 64 = c"
  by simp_all

lemma nib: fixes b :: nat assumes "b < 256" shows "b div 16 < 16"
  using assms by (simp add: less_mult_imp_div_less)

lemma nib2: fixes b :: nat assumes "b < 256"
  shows "b div 16 div 16 = 0" "b div 16 mod 16 * 16 + b mod 16 = b"
  using nib [OF assms] by simp_all

lemma quad: fixes c :: nat assumes "c < 256"
  shows "c div 64 div 4 = 0" "c div 64 mod 4 = c div 64" "c div 16 mod 16 = c div 16"
proof -
  have "c div 64 < 4" "c div 16 < 16" using assms by (simp_all add: less_mult_imp_div_less)
  then show "c div 64 div 4 = 0" "c div 64 mod 4 = c div 64" "c div 16 mod 16 = c div 16"
    by simp_all
qed

lemma b64decode_encode:
  "\<forall>b\<in>set bs. b < 256 \<Longrightarrow> b64decode (b64encode bs) = Some bs"
proof (induction bs rule: b64encode.induct)
  case 1
  then show ?case by simp
next
  case (2 a)
  then have a: "a < 256" by simp
  show ?case
    by (simp add: b64_index_char b64_char_not_pad sextets [OF a a a])
next
  case (3 a b)
  then have a: "a < 256" and b: "b < 256" by simp_all
  show ?case
    by (simp add: b64_index_char b64_char_not_pad sextets [OF a b b] nib2 [OF b])
next
  case (4 a b c r)
  then have a: "a < 256" and b: "b < 256" and c: "c < 256" and r: "\<forall>x\<in>set r. x < 256"
    by simp_all
  show ?case
    by (simp add: b64_index_char b64_char_not_pad sextets [OF a b c] nib2 [OF b] quad [OF c] quad(3) [OF b] 4(1) [OF r])
qed

lemma b64_char_ascii': "b64_char i < 0x80"
  by (auto simp: b64_char_def)

lemma b64encode_ascii: "\<forall>c\<in>set (b64encode bs). c < 0x80"
  by (induction bs rule: b64encode.induct) (simp_all add: b64_char_ascii')

lemma utf8_decode_ascii: "\<forall>c\<in>set bs. c < 0x80 \<Longrightarrow> utf8_decode bs = Some bs"
  by (induction bs) simp_all

lemma split64: fixes x k :: nat
  shows "x div 64 * (64 * k) + x mod 64 * k = x * k"
proof -
  have "x div 64 * (64 * k) + x mod 64 * k = (x div 64 * 64 + x mod 64) * k"
    by (simp only: add_mult_distrib mult.assoc)
  also have "\<dots> = x * k" by (simp only: div_mult_mod_eq)
  finally show ?thesis .
qed

lemma recompose3: fixes c :: nat
  shows "c div 4096 * 4096 + c div 64 mod 64 * 64 + c mod 64 = c"
proof -
  have a: "c div 4096 = c div 64 div 64" by (simp add: div_mult2_eq)
  have "c div 64 div 64 * (64 * 64) + c div 64 mod 64 * 64 = c div 64 * 64"
    by (rule split64)
  then have "c div 4096 * 4096 + c div 64 mod 64 * 64 = c div 64 * 64"
    by (simp add: a)
  then show ?thesis by (simp only: div_mult_mod_eq)
qed

lemma recompose4: fixes c :: nat
  shows "c div 262144 * 262144 + c div 4096 mod 64 * 4096 + c div 64 mod 64 * 64 + c mod 64 = c"
proof -
  have a: "c div 262144 = c div 4096 div 64" by (simp add: div_mult2_eq)
  have "c div 4096 div 64 * (64 * 4096) + c div 4096 mod 64 * 4096 = c div 4096 * 4096"
    by (rule split64)
  then have "c div 262144 * 262144 + c div 4096 mod 64 * 4096 = c div 4096 * 4096"
    by (simp add: a)
  then show ?thesis by (simp only: recompose3)
qed

lemma lead_bounds: fixes c :: nat
  shows "128 \<le> c \<Longrightarrow> 2 \<le> c div 64" "c < 2048 \<Longrightarrow> c div 64 < 32"
    "c < 65536 \<Longrightarrow> c div 4096 < 16" "c < 1114112 \<Longrightarrow> c div 262144 < 5"
  by (simp_all add: less_mult_imp_div_less le_div_geq)

lemma utf8_decode_cp:
  assumes "utf8_encode_cp c = Some e"
  shows "utf8_decode (e @ r) = map_option ((#) c) (utf8_decode r)"
proof -
  consider "c < 0x80" | "0x80 \<le> c" "c < 0x800"
    | "0x800 \<le> c" "c < 0x10000" "\<not> (0xD800 \<le> c \<and> c \<le> 0xDFFF)"
    | "0x10000 \<le> c" "c < 0x110000"
    using assms by (auto simp: utf8_encode_cp_def split: if_splits)
  then show ?thesis
  proof cases
    case 1
    then show ?thesis using assms by (auto simp: utf8_encode_cp_def)
  next
    case 2
    then have e: "e = [0xC0 + c div 64, 0x80 + c mod 64]"
      using assms by (auto simp: utf8_encode_cp_def)
    have "2 \<le> c div 64" "c div 64 < 32" using 2 lead_bounds(1,2) by simp_all
    then show ?thesis
      by (simp add: e continuation_def)
  next
    case 3
    then have e: "e = [0xE0 + c div 4096, 0x80 + (c div 64) mod 64, 0x80 + c mod 64]"
      using assms by (auto simp: utf8_encode_cp_def)
    have "c div 4096 < 16" using 3 lead_bounds(3) by simp
    then show ?thesis
      using 3 by (simp add: e continuation_def recompose3)
  next
    case 4
    then have e: "e = [0xF0 + c div 262144, 0x80 + (c div 4096) mod 64, 0x80 + (c div 64) mod 64,
              0x80 + c mod 64]"
      using assms by (auto simp: utf8_encode_cp_def)
    have "c div 262144 < 5" using 4 lead_bounds(4) by simp
    then show ?thesis
      using 4 by (simp add: e continuation_def recompose4)
  qed
qed

lemma utf8_decode_encode: "utf8_encode s = Some bs \<Longrightarrow> utf8_decode bs = Some s"
proof (induction s arbitrary: bs)
  case Nil
  then show ?case by simp
next
  case (Cons c s)
  then obtain e r where e: "utf8_encode_cp c = Some e" and r: "utf8_encode s = Some r"
    and bs: "bs = e @ r"
    by (auto split: option.splits)
  show ?case
    unfolding bs utf8_decode_cp [OF e] using Cons.IH [OF r] by simp
qed

lemma utf8_encode_cp_scalar: "scalar_value c \<longleftrightarrow> (\<exists>e. utf8_encode_cp c = Some e)"
  by (auto simp: scalar_value_def utf8_encode_cp_def)

lemma utf8_encode_scalar: "(\<forall>c\<in>set s. scalar_value c) \<longleftrightarrow> (\<exists>bs. utf8_encode s = Some bs)"
  by (induction s) (auto simp: utf8_encode_cp_scalar split: option.splits)

lemma utf8_encode_cp_bytes: "utf8_encode_cp c = Some e \<Longrightarrow> \<forall>b\<in>set e. b < 256"
proof -
  assume a: "utf8_encode_cp c = Some e"
  have m: "c mod 64 < 64" "c div 64 mod 64 < 64" "c div 4096 mod 64 < 64" by simp_all
  consider "c < 0x80" | "0x80 \<le> c" "c < 0x800"
    | "0x800 \<le> c" "c < 0x10000" "\<not> (0xD800 \<le> c \<and> c \<le> 0xDFFF)"
    | "0x10000 \<le> c" "c < 0x110000"
    using a by (auto simp: utf8_encode_cp_def split: if_splits)
  then show ?thesis
  proof cases
    case 1
    then show ?thesis using a by (auto simp: utf8_encode_cp_def)
  next
    case 2
    then have "c div 64 < 32" using lead_bounds(2) by simp
    then show ?thesis using a 2 m by (auto simp: utf8_encode_cp_def)
  next
    case 3
    then have "c div 4096 < 16" using lead_bounds(3) by simp
    then show ?thesis using a 3 m by (auto simp: utf8_encode_cp_def)
  next
    case 4
    then have "c div 262144 < 5" using lead_bounds(4) by simp
    then show ?thesis using a 4 m by (auto simp: utf8_encode_cp_def)
  qed
qed

lemma utf8_encode_bytes: "utf8_encode s = Some bs \<Longrightarrow> \<forall>b\<in>set bs. b < 256"
proof (induction s arbitrary: bs)
  case Nil
  then show ?case by simp
next
  case (Cons c s)
  then obtain e r where e: "utf8_encode_cp c = Some e" and r: "utf8_encode s = Some r"
    and bs: "bs = e @ r"
    by (auto split: option.splits)
  show ?case
    unfolding bs using utf8_encode_cp_bytes [OF e] Cons.IH [OF r] by auto
qed

subsection \<open>The markup can always be encoded\<close>

text \<open>
  The template is made of Unicode scalar values (ASCII and the middle dot), and trimming
  and truncating a prompt add no character to it: the markup of a prompt of scalar values
  is made of scalar values, so \<open>svg.encode("utf-8")\<close> does not raise.
\<close>

lemma u_scalar: "c \<in> set (u s) \<Longrightarrow> scalar_value c"
proof -
  assume "c \<in> set (u s)"
  then obtain x where "c = of_char x" by (auto simp: u_def)
  then have "c < 256" by simp
  then show ?thesis by (simp add: scalar_value_def)
qed

lemma template_scalar: "\<forall>c\<in>set svg_head. scalar_value c" "\<forall>c\<in>set svg_tail. scalar_value c"
proof -
  have "scalar_value 0xB7" by (simp add: scalar_value_def)
  then show "\<forall>c\<in>set svg_head. scalar_value c" "\<forall>c\<in>set svg_tail. scalar_value c"
    unfolding svg_head_def svg_tail_def by (auto dest: u_scalar)
qed

lemma strip_subset: "set (py_strip s) \<subseteq> set s"
  by (auto simp: py_strip_def dest!: set_dropWhileD)

lemma svg_scalar:
  assumes "\<forall>c\<in>set (img_prompt req). scalar_value c"
  shows "\<forall>c\<in>set (svg req). scalar_value c"
proof -
  have "\<forall>c\<in>set (if img_prompt req = [] then u ''Shahbaz AI'' else img_prompt req). scalar_value c"
    using assms by (auto dest: u_scalar)
  then have "\<forall>c\<in>set (title req). scalar_value c"
    unfolding title_def Let_def using strip_subset by (blast dest: in_set_takeD)
  then show ?thesis
    using template_scalar by (auto simp: svg_def)
qed

subsection \<open>What a call returns\<close>

text \<open>
  A data URI made from the UTF-8 bytes of a text decodes to that text.  For a prompt of
  scalar values the handler returns such a URI for its markup and has asked for one
  insert into \<open>imagerequest\<close>; what the database answered plays no part in the
  result, which is the \<open>except Exception: pass\<close> of the source.
\<close>

lemma decode_data_uri_encoded:
  assumes "utf8_encode m = Some bytes"
  shows "decode_data_uri (u ''data:image/svg+xml;base64,'' @ b64encode bytes) = Some m"
  using b64decode_encode [OF utf8_encode_bytes [OF assms]] utf8_decode_encode [OF assms]
  by (simp add: decode_data_uri_def)

lemma image_run:
  assumes "\<forall>c\<in>set (img_prompt req). scalar_value c"
  shows "\<exists>bytes. utf8_encode (svg req) = Some bytes \<and>
    image e req s =
      (Inr \<lparr>resp_image = u ''data:image/svg+xml;base64,'' @ b64encode bytes\<rparr>,
       s @ [(u ''imagerequest'',
             ImageDoc \<lparr>rec_prompt = img_prompt req, rec_style = img_style req\<rparr>)])"
proof -
  obtain bytes where b: "utf8_encode (svg req) = Some bytes"
    using svg_scalar [OF assms] utf8_encode_scalar by blast
  have d: "utf8_decode (b64encode bytes) = Some (b64encode bytes)"
    by (rule utf8_decode_ascii) (rule b64encode_ascii)
  show ?thesis
    by (simp add: b d image_def create_document_def io_return_def)
qed

lemma image_any_store: "fst (image e req s) = fst (image e2 req s2)"
  by (simp add: image_def create_document_def io_return_def io_raise_def
      split: option.splits prod.splits)

text \<open>
  C8.  The audit insert is best-effort.  When the insert into \<open>imagerequest\<close> raises
  in one run and returns an id in another run of the same request from the same store,
  both runs give the same result to the caller: the failure is swallowed.  And the run
  whose insert raises does return a data URI, the one of the markup of the request, for
  every prompt made of Unicode scalar values (the prompts \<open>svg.encode("utf-8")\<close>
  accepts).
\<close>

theorem image_store_failure:
  "(env_db e s (u ''imagerequest'')
      (ImageDoc \<lparr>rec_prompt = img_prompt req, rec_style = img_style req\<rparr>) = Inl x \<and>
    env_db e2 s (u ''imagerequest'')
      (ImageDoc \<lparr>rec_prompt = img_prompt req, rec_style = img_style req\<rparr>) = Inr i \<longrightarrow>
      fst (image e req s) = fst (image e2 req s)) \<and>
   (env_db e s (u ''imagerequest'')
      (ImageDoc \<lparr>rec_prompt = img_prompt req, rec_style = img_style req\<rparr>) = Inl x \<and>
    (\<forall>c\<in>set (img_prompt req). scalar_value c) \<longrightarrow>
      (\<exists>bytes. utf8_encode (svg req) = Some bytes \<and>
         fst (image e req s) =
           Inr \<lparr>resp_image = u ''data:image/svg+xml;base64,'' @ b64encode bytes\<rparr>))"
proof -
  have "fst (image e req s) = fst (image e2 req s)"
    by (rule image_any_store)
  moreover have "\<exists>bytes. utf8_encode (svg req) = Some bytes \<and>
         fst (image e req s) =
           Inr \<lparr>resp_image = u ''data:image/svg+xml;base64,'' @ b64encode bytes\<rparr>"
    if "\<forall>c\<in>set (img_prompt req). scalar_value c"
    using image_run [OF that, of e s] by auto
  ultimately show ?thesis by blast
qed

text \<open>
  The theorem at the prompt \<open>sky\<close>, with a database that is down against one that
  answers \<open>s1\<close>.
\<close>

theorem image_store_failure_witness:
  "fst (image (demo_env\<lparr>env_db := (\<lambda>s c d. Inl (StoreError (u ''down'')))\<rparr>)
         \<lparr>img_prompt = u ''sky'', img_style = None\<rparr> []) =
     fst (image demo_env \<lparr>img_prompt = u ''sky'', img_style = None\<rparr> []) \<and>
   (\<exists>bytes. utf8_encode (svg \<lparr>img_prompt = u ''sky'', img_style = None\<rparr>) = Some bytes \<and>
      fst (image (demo_env\<lparr>env_db := (\<lambda>s c d. Inl (StoreError (u ''down'')))\<rparr>)
            \<lparr>img_prompt = u ''sky'', img_style = None\<rparr> []) =
        Inr \<lparr>resp_image = u ''data:image/svg+xml;base64,'' @ b64encode bytes\<rparr>)"
proof -
  have a: "env_db (demo_env\<lparr>env_db := (\<lambda>s c d. Inl (StoreError (u ''down'')))\<rparr>) []
      (u ''imagerequest'')
      (ImageDoc \<lparr>rec_prompt = img_prompt \<lparr>img_prompt = u ''sky'', img_style = None\<rparr>,
                 rec_style = img_style \<lparr>img_prompt = u ''sky'', img_style = None\<rparr>\<rparr>) =
      Inl (StoreError (u ''down''))"
    by simp
  have b: "env_db demo_env [] (u ''imagerequest'')
      (ImageDoc \<lparr>rec_prompt = img_prompt \<lparr>img_prompt = u ''sky'', img_style = None\<rparr>,
                 rec_style = img_style \<lparr>img_prompt = u ''sky'', img_style = None\<rparr>\<rparr>) =
      Inr (u ''s1'')"
    by (simp add: demo_env_def)
  have c: "\<forall>c\<in>set (img_prompt \<lparr>img_prompt = u ''sky'', img_style = None\<rparr>). scalar_value c"
    by (simp add: scalar_value_def u_simps)
  show ?thesis
    using image_store_failure
      [of "demo_env\<lparr>env_db := (\<lambda>s c d. Inl (StoreError (u ''down'')))\<rparr>" "[]"
          "\<lparr>img_prompt = u ''sky'', img_style = None\<rparr>" "StoreError (u ''down'')"
          demo_env "u ''s1''"] a b c
    by blast
qed

subsection \<open>The markup of a plain title is well-formed\<close>

text \<open>
  The reader goes through the first part of the template and stands in the character
  data of the \<open>text\<close> element; plain character data leaves it there; and from there it
  goes through the second part of the template and ends with the root closed.
\<close>

lemmas xml_defs = well_formed_def u_simps step_def xml_char_def xml_space_def name_char_def
  name_start_char_def open_element_def close_element_def empty_element_def
  predefined_entity_def dec_digit_def hex_digit_def reserved_target_def

lemma head_run: "run ([], False, Text 0) svg_head = Some ([u ''text'', u ''svg''], False, Text 0)"
  unfolding svg_head_def
  by (simp add: xml_defs)

lemma run_append:
  "run p (xs @ ys) = (case run p xs of None \<Rightarrow> None | Some p' \<Rightarrow> run p' ys)"
  by (induction xs arbitrary: p) (simp_all split: option.splits)

lemma cdata_end_in_suffix: "cdata_end_in ys \<Longrightarrow> cdata_end_in (xs @ ys)"
  by (induction xs) simp_all

lemma text_run:
  assumes "stack \<noteq> []"
  shows "list_all (\<lambda>c. xml_char c \<and> c \<noteq> 0x3C \<and> c \<noteq> 0x26) T \<Longrightarrow> k \<le> 2 \<Longrightarrow>
    \<not> cdata_end_in (replicate k 0x5D @ T) \<Longrightarrow>
    \<exists>k'. run (stack, closed, Text k) T = Some (stack, closed, Text k')"
proof (induction T arbitrary: k)
  case Nil
  show ?case by simp
next
  case (Cons c cs)
  from Cons.prems(1) have c: "xml_char c" "c \<noteq> 0x3C" "c \<noteq> 0x26"
    and cs: "list_all (\<lambda>c. xml_char c \<and> c \<noteq> 0x3C \<and> c \<noteq> 0x26) cs"
    by simp_all
  from Cons.prems(3) have n: "\<not> cdata_end_in cs"
    using cdata_end_in_suffix [of cs "replicate k 0x5D @ [c]"] by auto
  consider "k = 0" | "k = 1" | "k = 2"
    using Cons.prems(2) by linarith
  then have "\<exists>j\<le>2. step (stack, closed, Text k) c = Some (stack, closed, Text j) \<and>
      \<not> cdata_end_in (replicate j 0x5D @ cs)"
  proof cases
    case 1
    then show ?thesis
      using c n Cons.prems(3) assms by (auto simp: step_def u_simps)
  next
    case 2
    then show ?thesis
      using c n Cons.prems(3) assms by (auto simp: step_def u_simps numeral_2_eq_2)
  next
    case 3
    then show ?thesis
      using c n Cons.prems(3) assms by (auto simp: step_def u_simps numeral_2_eq_2)
  qed
  then obtain j where j: "j \<le> 2" "step (stack, closed, Text k) c = Some (stack, closed, Text j)"
    "\<not> cdata_end_in (replicate j 0x5D @ cs)"
    by blast
  show ?case
    using Cons.IH [OF cs j(1) j(3)] by (simp add: j(2))
qed

lemma tail_run:
  "run ([u ''text'', u ''svg''], False, Text k) svg_tail = Some ([], True, Text 0)"
  unfolding svg_tail_def
  by (simp add: xml_defs)

lemma template_well_formed:
  assumes "plain_text T"
  shows "well_formed (svg_head @ T @ svg_tail)"
proof -
  obtain k where "run ([u ''text'', u ''svg''], False, Text 0) T =
      Some ([u ''text'', u ''svg''], False, Text k)"
    using text_run [of "[u ''text'', u ''svg'']" T 0 False] assms
    by (auto simp: plain_text_def)
  then show ?thesis
    by (simp add: well_formed_def run_append head_run tail_run)
qed

lemma template_ill_formed: "\<not> well_formed (svg_head @ u ''a<b'' @ svg_tail)"
  by (simp add: well_formed_def run_append head_run)
    (simp add: svg_tail_def xml_defs)

lemma xml_char_scalar: "xml_char c \<Longrightarrow> scalar_value c"
  by (auto simp: xml_char_def scalar_value_def)

lemma image_run_title:
  assumes "\<forall>c\<in>set (title req). scalar_value c"
  shows "\<exists>bytes. utf8_encode (svg req) = Some bytes \<and>
    fst (image e req s) =
      Inr \<lparr>resp_image = u ''data:image/svg+xml;base64,'' @ b64encode bytes\<rparr>"
proof -
  have "\<forall>c\<in>set (svg req). scalar_value c"
    using assms template_scalar by (auto simp: svg_def)
  then obtain bytes where b: "utf8_encode (svg req) = Some bytes"
    using utf8_encode_scalar by blast
  have d: "utf8_decode (b64encode bytes) = Some (b64encode bytes)"
    by (rule utf8_decode_ascii) (rule b64encode_ascii)
  show ?thesis
    by (simp add: b d image_def create_document_def io_return_def)
qed

text \<open>
  C7, as the code has it.  For every request whose title is made of Unicode scalar
  values, every style, every database and every store, the handler returns a URI that
  starts with \<open>data:image/svg+xml;base64,\<close> and whose payload decodes (base64, then
  UTF-8) to the fixed template around the title.  The title is the first 80 characters
  of the prompt trimmed of surrounding white space, the prompt being replaced by
  \<open>Shahbaz AI\<close> when it is empty; so it is the prompt, or its 80-character truncation,
  when the prompt is not empty and has no surrounding white space, and it never has
  more than 80 characters.  The decoded markup is well-formed whenever the title is
  plain character data.
\<close>

theorem image_data_uri:
  "((\<forall>c\<in>set (title req). scalar_value c) \<longrightarrow>
      (\<exists>uri. fst (image e req s) = Inr \<lparr>resp_image = uri\<rparr> \<and>
         take 26 uri = u ''data:image/svg+xml;base64,'' \<and>
         decode_data_uri uri = Some (svg_head @ title req @ svg_tail))) \<and>
   title req =
     take 80 (py_strip (if img_prompt req = [] then u ''Shahbaz AI'' else img_prompt req)) \<and>
   (img_prompt req \<noteq> [] \<and> py_strip (img_prompt req) = img_prompt req \<longrightarrow>
      title req = take 80 (img_prompt req)) \<and>
   length (title req) \<le> 80 \<and>
   (plain_text (title req) \<longrightarrow>
      (\<exists>uri m. fst (image e req s) = Inr \<lparr>resp_image = uri\<rparr> \<and>
         decode_data_uri uri = Some m \<and> well_formed m))"
proof -
  have r: "\<exists>uri. fst (image e req s) = Inr \<lparr>resp_image = uri\<rparr> \<and>
         take 26 uri = u ''data:image/svg+xml;base64,'' \<and>
         decode_data_uri uri = Some (svg_head @ title req @ svg_tail)"
    if a: "\<forall>c\<in>set (title req). scalar_value c"
  proof -
    obtain bytes where b: "utf8_encode (svg req) = Some bytes"
      and r: "fst (image e req s) =
        Inr \<lparr>resp_image = u ''data:image/svg+xml;base64,'' @ b64encode bytes\<rparr>"
      using image_run_title [OF a, of e s] by auto
    have "take 26 (u ''data:image/svg+xml;base64,'' @ b64encode bytes) =
        u ''data:image/svg+xml;base64,''"
      by (simp add: u_simps)
    moreover have "decode_data_uri (u ''data:image/svg+xml;base64,'' @ b64encode bytes) =
        Some (svg_head @ title req @ svg_tail)"
      using decode_data_uri_encoded [OF b] by (simp add: svg_def)
    ultimately show ?thesis using r by blast
  qed
  have t: "title req =
      take 80 (py_strip (if img_prompt req = [] then u ''Shahbaz AI'' else img_prompt req))"
    by (simp add: title_def)
  have "title req = take 80 (img_prompt req)"
    if "img_prompt req \<noteq> []" "py_strip (img_prompt req) = img_prompt req"
    using that by (simp add: title_def)
  moreover have "length (title req) \<le> 80"
    by (simp add: title_def)
  moreover have "\<exists>uri m. fst (image e req s) = Inr \<lparr>resp_image = uri\<rparr> \<and>
         decode_data_uri uri = Some m \<and> well_formed m"
    if p: "plain_text (title req)"
  proof -
    have "\<forall>c\<in>set (title req). scalar_value c"
      using p by (auto simp: plain_text_def list_all_iff intro: xml_char_scalar)
    then show ?thesis
      using r template_well_formed [OF p] by blast
  qed
  ultimately show ?thesis using r t by blast
qed

text \<open>
  The theorem at the prompt \<open>sky\<close> with no style.
\<close>

theorem image_data_uri_witness:
  "(\<exists>uri. fst (image demo_env \<lparr>img_prompt = u ''sky'', img_style = None\<rparr> []) =
            Inr \<lparr>resp_image = uri\<rparr> \<and>
      take 26 uri = u ''data:image/svg+xml;base64,'' \<and>
      decode_data_uri uri = Some (svg_head @ u ''sky'' @ svg_tail)) \<and>
   title \<lparr>img_prompt = u ''sky'', img_style = None\<rparr> = u ''sky'' \<and>
   length (title \<lparr>img_prompt = u ''sky'', img_style = None\<rparr>) \<le> 80 \<and>
   (\<exists>uri m. fst (image demo_env \<lparr>img_prompt = u ''sky'', img_style = None\<rparr> []) =
            Inr \<lparr>resp_image = uri\<rparr> \<and>
      decode_data_uri uri = Some m \<and> well_formed m)"
proof -
  have t: "title \<lparr>img_prompt = u ''sky'', img_style = None\<rparr> = u ''sky''"
    by (simp add: title_def py_strip_def isspace_def u_simps)
  have s: "\<forall>c\<in>set (u ''sky''). scalar_value c"
    by (simp add: scalar_value_def u_simps)
  have p: "plain_text (u ''sky'')"
    by (simp add: plain_text_def xml_char_def u_simps)
  show ?thesis
    using image_data_uri [of "\<lparr>img_prompt = u ''sky'', img_style = None\<rparr>" demo_env "[]"]
    unfolding t using s p by simp
qed

text \<open>
  C7 as the spec words it has, for every prompt, the empty one included, a title equal
  to the prompt and well-formed markup.  For the empty prompt with no style the handler
  returns a URI whose markup has the title \<open>Shahbaz AI\<close>
  (\<open>req.prompt or "Shahbaz AI"\<close>), not the empty prompt; a prompt with a leading space
  loses it (\<open>.strip()\<close>); for the prompt \<open>a<b\<close> the handler returns a URI whose markup
  is not well-formed; and a prompt holding a lone surrogate makes
  \<open>svg.encode("utf-8")\<close> raise, so no URI is returned.
\<close>

theorem image_empty_prompt_counterexample:
  "(case fst (image demo_env \<lparr>img_prompt = [], img_style = None\<rparr> []) of
      Inl x \<Rightarrow> False
    | Inr r \<Rightarrow> decode_data_uri (resp_image r) = Some (svg_head @ u ''Shahbaz AI'' @ svg_tail)) \<and>
   title \<lparr>img_prompt = [], img_style = None\<rparr> = u ''Shahbaz AI'' \<and>
   title \<lparr>img_prompt = [], img_style = None\<rparr> \<noteq>
     take 80 (img_prompt \<lparr>img_prompt = [], img_style = None\<rparr>) \<and>
   title \<lparr>img_prompt = u '' a'', img_style = None\<rparr> = u ''a'' \<and>
   title \<lparr>img_prompt = u '' a'', img_style = None\<rparr> \<noteq> u '' a'' \<and>
   (case fst (image demo_env \<lparr>img_prompt = u ''a<b'', img_style = None\<rparr> []) of
      Inl x \<Rightarrow> False
    | Inr r \<Rightarrow>
        decode_data_uri (resp_image r) = Some (svg_head @ u ''a<b'' @ svg_tail) \<and>
        \<not> well_formed (svg_head @ u ''a<b'' @ svg_tail)) \<and>
   fst (image demo_env \<lparr>img_prompt = [0xD800], img_style = None\<rparr> []) = Inl UnicodeEncodeError"
proof -
  have t: "title \<lparr>img_prompt = [], img_style = None\<rparr> = u ''Shahbaz AI''"
    by (simp add: title_def py_strip_def isspace_def u_simps)
  have "\<forall>c\<in>set (title \<lparr>img_prompt = [], img_style = None\<rparr>). scalar_value c"
    unfolding t by (simp add: scalar_value_def u_simps)
  then obtain bytes where b: "utf8_encode (svg \<lparr>img_prompt = [], img_style = None\<rparr>) = Some bytes"
    and r: "fst (image demo_env \<lparr>img_prompt = [], img_style = None\<rparr> []) =
        Inr \<lparr>resp_image = u ''data:image/svg+xml;base64,'' @ b64encode bytes\<rparr>"
    using image_run_title [of "\<lparr>img_prompt = [], img_style = None\<rparr>" demo_env "[]"] by auto
  have d: "decode_data_uri (u ''data:image/svg+xml;base64,'' @ b64encode bytes) =
      Some (svg_head @ u ''Shahbaz AI'' @ svg_tail)"
    using decode_data_uri_encoded [OF b] by (simp add: svg_def t)
  have a: "title \<lparr>img_prompt = u '' a'', img_style = None\<rparr> = u ''a''"
    by (simp add: title_def py_strip_def isspace_def u_simps)
  have t2: "title \<lparr>img_prompt = u ''a<b'', img_style = None\<rparr> = u ''a<b''"
    by (simp add: title_def py_strip_def isspace_def u_simps)
  have "\<forall>c\<in>set (title \<lparr>img_prompt = u ''a<b'', img_style = None\<rparr>). scalar_value c"
    unfolding t2 by (simp add: scalar_value_def u_simps)
  then obtain bytes2
    where b2: "utf8_encode (svg \<lparr>img_prompt = u ''a<b'', img_style = None\<rparr>) = Some bytes2"
    and r2: "fst (image demo_env \<lparr>img_prompt = u ''a<b'', img_style = None\<rparr> []) =
        Inr \<lparr>resp_image = u ''data:image/svg+xml;base64,'' @ b64encode bytes2\<rparr>"
    using image_run_title [of "\<lparr>img_prompt = u ''a<b'', img_style = None\<rparr>" demo_env "[]"]
    by auto
  have d2: "decode_data_uri (u ''data:image/svg+xml;base64,'' @ b64encode bytes2) =
      Some (svg_head @ u ''a<b'' @ svg_tail)"
    using decode_data_uri_encoded [OF b2] by (simp add: svg_def t2)
  have "\<not> scalar_value 0xD800"
    by (simp add: scalar_value_def)
  then have "utf8_encode (svg \<lparr>img_prompt = [0xD800], img_style = None\<rparr>) = None"
    using utf8_encode_scalar [of "svg \<lparr>img_prompt = [0xD800], img_style = None\<rparr>"]
    by (auto simp: svg_def title_def py_strip_def isspace_def)
  then have s: "fst (image demo_env \<lparr>img_prompt = [0xD800], img_style = None\<rparr> []) =
      Inl UnicodeEncodeError"
    by (simp add: image_def io_raise_def)
  show ?thesis
    by (simp add: r d t a s r2 d2 template_ill_formed) (simp add: u_simps)
qed

end
